theory Spec2Isabelle
  imports Complex_Main
begin

section \<open>Numbers, rounding and the random source\<close>

text \<open>
  The runner is written in JavaScript, whose numbers are IEEE doubles. They are modelled
  here as \<^typ>\<open>real\<close>: exact arithmetic, no rounding error. \<open>Math.round\<close> rounds
  to the nearest integer with ties towards plus infinity, \<open>Math.floor\<close> is the floor.
  A call of \<open>Math.random()\<close> is a real number that the caller passes in; its contract
  is \<open>0 \<le> r < 1\<close>.
\<close>

definition Math_round :: "real \<Rightarrow> real" where
  "Math_round v = of_int \<lfloor>v + 1 / 2\<rfloor>"

definition Math_floor :: "real \<Rightarrow> real" where
  "Math_floor v = of_int \<lfloor>v\<rfloor>"

definition unit_draw :: "real \<Rightarrow> bool" where
  "unit_draw r = (0 \<le> r \<and> r < 1)"

text \<open>\<open>getRandomNum(min, max)\<close>, with the value of \<open>Math.random()\<close> as third argument.\<close>

definition getRandomNum :: "real \<Rightarrow> real \<Rightarrow> real \<Rightarrow> real" where
  "getRandomNum mn mx r = Math_floor (r * (mx - mn + 1)) + mn"

text \<open>A property that is \<open>undefined\<close> or \<open>0\<close> is falsy.\<close>

definition truthy :: "real option \<Rightarrow> bool" where
  "truthy v = (case v of None \<Rightarrow> False | Some n \<Rightarrow> n \<noteq> 0)"

definition FPS :: real where
  "FPS = 60"

definition DEFAULT_WIDTH :: real where
  "DEFAULT_WIDTH = 600"

section \<open>Collision boxes\<close>

record CollisionBox =
  box_x :: real
  box_y :: real
  box_width :: real
  box_height :: real

definition mkBox :: "real \<Rightarrow> real \<Rightarrow> real \<Rightarrow> real \<Rightarrow> CollisionBox" where
  "mkBox bx by w h = \<lparr>box_x = bx, box_y = by, box_width = w, box_height = h\<rparr>"

definition createAdjustedCollisionBox :: "CollisionBox \<Rightarrow> CollisionBox \<Rightarrow> CollisionBox" where
  "createAdjustedCollisionBox box adjustment =
     mkBox (box_x box + box_x adjustment) (box_y box + box_y adjustment)
       (box_width box) (box_height box)"

definition boxCompare :: "CollisionBox \<Rightarrow> CollisionBox \<Rightarrow> bool" where
  "boxCompare tRexBox obstacleBox =
     (box_x tRexBox < box_x obstacleBox + box_width obstacleBox \<and>
      box_x tRexBox + box_width tRexBox > box_x obstacleBox \<and>
      box_y tRexBox < box_y obstacleBox + box_height obstacleBox \<and>
      box_height tRexBox + box_y tRexBox > box_y obstacleBox)"

section \<open>Obstacles\<close>

datatype yPosConfig = FixedY real | VariableY "real list" "real list"

record ObstacleType =
  ty_type :: string
  ty_width :: real
  ty_height :: real
  ty_yPos :: yPosConfig
  ty_multipleSpeed :: real
  ty_minGap :: real
  ty_minSpeed :: real
  ty_collisionBoxes :: "CollisionBox list"
  ty_numFrames :: "real option"
  ty_frameRate :: "real option"
  ty_speedOffset :: "real option"

definition CACTUS_SMALL :: ObstacleType where
  "CACTUS_SMALL =
     \<lparr>ty_type = ''CACTUS_SMALL'', ty_width = 17, ty_height = 35, ty_yPos = FixedY 105,
      ty_multipleSpeed = 4, ty_minGap = 120, ty_minSpeed = 0,
      ty_collisionBoxes = [mkBox 0 7 5 27, mkBox 4 0 6 34, mkBox 10 4 7 14],
      ty_numFrames = None, ty_frameRate = None, ty_speedOffset = None\<rparr>"

definition CACTUS_LARGE :: ObstacleType where
  "CACTUS_LARGE =
     \<lparr>ty_type = ''CACTUS_LARGE'', ty_width = 25, ty_height = 50, ty_yPos = FixedY 90,
      ty_multipleSpeed = 7, ty_minGap = 120, ty_minSpeed = 0,
      ty_collisionBoxes = [mkBox 0 12 7 38, mkBox 8 0 7 49, mkBox 13 10 10 38],
      ty_numFrames = None, ty_frameRate = None, ty_speedOffset = None\<rparr>"

definition PTERODACTYL :: ObstacleType where
  "PTERODACTYL =
     \<lparr>ty_type = ''PTERODACTYL'', ty_width = 46, ty_height = 40,
      ty_yPos = VariableY [100, 75, 50] [100, 50],
      ty_multipleSpeed = 999, ty_minGap = 150, ty_minSpeed = 17 / 2,
      ty_collisionBoxes =
        [mkBox 15 15 16 5, mkBox 18 21 24 6, mkBox 2 14 4 3, mkBox 6 10 4 7, mkBox 10 8 6 9],
      ty_numFrames = Some 2, ty_frameRate = Some (1000 / 6), ty_speedOffset = Some (8 / 10)\<rparr>"

definition Obstacle_types :: "ObstacleType list" where
  "Obstacle_types = [CACTUS_SMALL, CACTUS_LARGE, PTERODACTYL]"

definition MAX_GAP_COEFFICIENT :: real where
  "MAX_GAP_COEFFICIENT = 3 / 2"

definition MAX_OBSTACLE_LENGTH :: real where
  "MAX_OBSTACLE_LENGTH = 3"

record Obstacle =
  o_typeConfig :: ObstacleType
  o_gapCoefficient :: real
  o_size :: real
  o_remove :: bool
  o_xPos :: real
  o_yPos :: real
  o_width :: real
  o_collisionBoxes :: "CollisionBox list"
  o_gap :: real
  o_speedOffset :: real
  o_currentFrame :: real
  o_timer :: real
  o_followingObstacleCreated :: bool

definition isVisible :: "Obstacle \<Rightarrow> bool" where
  "isVisible ob = (o_xPos ob + o_width ob > 0)"

text \<open>
  \<open>Obstacle.prototype.update\<close>. Drawing changes no field of the obstacle and is left
  out. Comparing the timer with an \<open>undefined\<close> frame rate is false.
\<close>

definition Obstacle_update :: "real \<Rightarrow> real \<Rightarrow> Obstacle \<Rightarrow> Obstacle" where
  "Obstacle_update deltaTime speed ob =
     (if \<not> o_remove ob then
        let speed1 = (if truthy (ty_speedOffset (o_typeConfig ob))
                      then speed + o_speedOffset ob else speed);
            ob1 = ob\<lparr>o_xPos := o_xPos ob - Math_floor ((speed1 * FPS / 1000) * deltaTime)\<rparr>;
            ob2 = (case ty_numFrames (o_typeConfig ob) of
                     None \<Rightarrow> ob1
                   | Some n \<Rightarrow>
                       if n = 0 then ob1
                       else
                         let ob1t = ob1\<lparr>o_timer := o_timer ob1 + deltaTime\<rparr> in
                         (case ty_frameRate (o_typeConfig ob) of
                            None \<Rightarrow> ob1t
                          | Some rate \<Rightarrow>
                              if o_timer ob1t \<ge> rate
                              then ob1t\<lparr>o_currentFrame :=
                                          (if o_currentFrame ob1t = n - 1 then 0
                                           else o_currentFrame ob1t + 1),
                                        o_timer := 0\<rparr>
                              else ob1t))
        in if \<not> isVisible ob2 then ob2\<lparr>o_remove := True\<rparr> else ob2
      else ob)"

section \<open>The T-rex\<close>

datatype status = CRASHED | DUCKING | JUMPING | RUNNING | WAITING

record TrexConfig =
  DROP_VELOCITY :: real
  GRAVITY :: real
  HEIGHT :: real
  HEIGHT_DUCK :: real
  INIITAL_JUMP_VELOCITY :: real
  INTRO_DURATION :: real
  MAX_JUMP_HEIGHT :: real
  MIN_JUMP_HEIGHT :: real
  SPEED_DROP_COEFFICIENT :: real
  SPRITE_WIDTH :: real
  START_X_POS :: real
  WIDTH :: real
  WIDTH_DUCK :: real

definition Trex_config :: TrexConfig where
  "Trex_config =
     \<lparr>DROP_VELOCITY = - 5, GRAVITY = 6 / 10, HEIGHT = 47, HEIGHT_DUCK = 25,
      INIITAL_JUMP_VELOCITY = - 10, INTRO_DURATION = 1500, MAX_JUMP_HEIGHT = 30,
      MIN_JUMP_HEIGHT = 30, SPEED_DROP_COEFFICIENT = 3, SPRITE_WIDTH = 262,
      START_X_POS = 50, WIDTH = 44, WIDTH_DUCK = 59\<rparr>"

definition Trex_collisionBoxes_DUCKING :: "CollisionBox list" where
  "Trex_collisionBoxes_DUCKING = [mkBox 1 18 55 25]"

definition Trex_collisionBoxes_RUNNING :: "CollisionBox list" where
  "Trex_collisionBoxes_RUNNING =
     [mkBox 22 0 17 16, mkBox 1 18 30 9, mkBox 10 35 14 8,
      mkBox 1 24 29 5, mkBox 5 30 21 4, mkBox 9 34 15 4]"

definition BLINK_TIMING :: real where
  "BLINK_TIMING = 7000"

fun animFrames_frames :: "status \<Rightarrow> real list" where
  "animFrames_frames WAITING = [44, 0]"
| "animFrames_frames RUNNING = [88, 132]"
| "animFrames_frames CRASHED = [220]"
| "animFrames_frames JUMPING = [0]"
| "animFrames_frames DUCKING = [264, 323]"

fun animFrames_msPerFrame :: "status \<Rightarrow> real" where
  "animFrames_msPerFrame WAITING = 1000 / 3"
| "animFrames_msPerFrame RUNNING = 1000 / 12"
| "animFrames_msPerFrame CRASHED = 1000 / 60"
| "animFrames_msPerFrame JUMPING = 1000 / 60"
| "animFrames_msPerFrame DUCKING = 1000 / 8"

record Trex =
  t_config :: TrexConfig
  t_xPos :: real
  t_yPos :: real
  t_groundYPos :: real
  t_minJumpHeight :: real
  t_currentFrame :: real
  t_currentAnimFrames :: "real list"
  t_blinkDelay :: real
  t_blinkCount :: real
  t_animStartTime :: real
  t_timer :: real
  t_msPerFrame :: real
  t_status :: status
  t_jumping :: bool
  t_ducking :: bool
  t_jumpVelocity :: real
  t_reachedMinHeight :: bool
  t_speedDrop :: bool
  t_jumpCount :: real
  t_playingIntro :: bool
  t_midair :: bool

section \<open>Collision detection\<close>

text \<open>
  \<open>checkForCollision(obstacle, tRex)\<close> without the optional debug canvas. The two
  nested \<open>for\<close> loops are the two recursions below; the result is the first pair of
  adjusted boxes that \<open>boxCompare\<close> accepts, or \<open>None\<close> for \<open>false\<close>.
\<close>

fun obstacleBoxes_loop ::
  "CollisionBox \<Rightarrow> CollisionBox \<Rightarrow> CollisionBox \<Rightarrow> CollisionBox list \<Rightarrow>
   (CollisionBox \<times> CollisionBox) option" where
  "obstacleBoxes_loop tRexBox obstacleBox tb [] = None"
| "obstacleBoxes_loop tRexBox obstacleBox tb (cb # cbs) =
     (let adjTrexBox = createAdjustedCollisionBox tb tRexBox;
          adjObstacleBox = createAdjustedCollisionBox cb obstacleBox
      in if boxCompare adjTrexBox adjObstacleBox then Some (adjTrexBox, adjObstacleBox)
         else obstacleBoxes_loop tRexBox obstacleBox tb cbs)"

fun tRexBoxes_loop ::
  "CollisionBox \<Rightarrow> CollisionBox \<Rightarrow> CollisionBox list \<Rightarrow> CollisionBox list \<Rightarrow>
   (CollisionBox \<times> CollisionBox) option" where
  "tRexBoxes_loop tRexBox obstacleBox [] cbs = None"
| "tRexBoxes_loop tRexBox obstacleBox (tb # tbs) cbs =
     (case obstacleBoxes_loop tRexBox obstacleBox tb cbs of
        Some pair \<Rightarrow> Some pair
      | None \<Rightarrow> tRexBoxes_loop tRexBox obstacleBox tbs cbs)"

definition outer_tRexBox :: "Trex \<Rightarrow> CollisionBox" where
  "outer_tRexBox tRex =
     mkBox (t_xPos tRex + 1) (t_yPos tRex + 1)
       (WIDTH (t_config tRex) - 2) (HEIGHT (t_config tRex) - 2)"

definition outer_obstacleBox :: "Obstacle \<Rightarrow> CollisionBox" where
  "outer_obstacleBox obstacle =
     mkBox (o_xPos obstacle + 1) (o_yPos obstacle + 1)
       (ty_width (o_typeConfig obstacle) * o_size obstacle - 2)
       (ty_height (o_typeConfig obstacle) - 2)"

definition tRexCollisionBoxes :: "Trex \<Rightarrow> CollisionBox list" where
  "tRexCollisionBoxes tRex =
     (if t_ducking tRex then Trex_collisionBoxes_DUCKING else Trex_collisionBoxes_RUNNING)"

definition checkForCollision :: "Obstacle \<Rightarrow> Trex \<Rightarrow> (CollisionBox \<times> CollisionBox) option" where
  "checkForCollision obstacle tRex =
     (let tRexBox = outer_tRexBox tRex;
          obstacleBox = outer_obstacleBox obstacle
      in if boxCompare tRexBox obstacleBox
         then tRexBoxes_loop tRexBox obstacleBox (tRexCollisionBoxes tRex)
                (o_collisionBoxes obstacle)
         else None)"

text \<open>
  The reading of the collision property: a box moved to world coordinates by its owner's
  position, and two boxes overlapping when their intervals meet on both axes.
\<close>

definition world_box :: "real \<Rightarrow> real \<Rightarrow> CollisionBox \<Rightarrow> CollisionBox" where
  "world_box px py b = mkBox (box_x b + px) (box_y b + py) (box_width b) (box_height b)"

definition intervals_meet :: "real \<Rightarrow> real \<Rightarrow> real \<Rightarrow> real \<Rightarrow> bool" where
  "intervals_meet lo1 len1 lo2 len2 = (lo1 < lo2 + len2 \<and> lo2 < lo1 + len1)"

definition boxes_overlap :: "CollisionBox \<Rightarrow> CollisionBox \<Rightarrow> bool" where
  "boxes_overlap a b =
     (intervals_meet (box_x a) (box_width a) (box_x b) (box_width b) \<and>
      intervals_meet (box_y a) (box_height a) (box_y b) (box_height b))"

definition some_boxes_overlap :: "Obstacle \<Rightarrow> Trex \<Rightarrow> bool" where
  "some_boxes_overlap obstacle tRex =
     (\<exists>tb \<in> set (tRexCollisionBoxes tRex). \<exists>cb \<in> set (o_collisionBoxes obstacle).
        boxes_overlap (world_box (t_xPos tRex) (t_yPos tRex) tb)
          (world_box (o_xPos obstacle) (o_yPos obstacle) cb))"

section \<open>Constructing obstacles\<close>

text \<open>
  The random source is a sequence \<open>rnd\<close> of \<open>Math.random()\<close> results and a position
  in it; every function that draws returns the next position. \<open>TypeError\<close> is the
  exception JavaScript raises on a property access on \<open>undefined\<close>.
  \<open>DrawOutOfRange\<close> marks a draw outside \<open>[0, 1)\<close>, which \<open>Math.random()\<close>
  never returns: the model stops there instead of following an index outside a table.
  \<open>UndefinedValue\<close> marks a read of an empty table, which gives \<open>undefined\<close> where
  the obstacle needs a number.
\<close>

datatype error = TypeError | DrawOutOfRange | UndefinedValue

definition next_draw :: "(nat \<Rightarrow> real) \<Rightarrow> nat \<Rightarrow> error + real" where
  "next_draw rnd i = (if unit_draw (rnd i) then Inr (rnd i) else Inl DrawOutOfRange)"

record Dimensions =
  dim_WIDTH :: real
  dim_HEIGHT :: real

definition getGap :: "Obstacle \<Rightarrow> real \<Rightarrow> real \<Rightarrow> real \<Rightarrow> real" where
  "getGap ob gapCoefficient speed r =
     (let minGap = Math_round (o_width ob * speed +
                     ty_minGap (o_typeConfig ob) * gapCoefficient);
          maxGap = Math_round (minGap * MAX_GAP_COEFFICIENT)
      in getRandomNum minGap maxGap r)"

text \<open>The choice of \<open>yPos\<close> in \<open>init\<close>: a fixed height, or a drawn entry of the height table.\<close>

definition choose_yPos ::
  "bool \<Rightarrow> ObstacleType \<Rightarrow> (nat \<Rightarrow> real) \<Rightarrow> nat \<Rightarrow> error + (real \<times> nat)" where
  "choose_yPos IS_MOBILE ty rnd i =
     (case ty_yPos ty of
        FixedY v \<Rightarrow> Inr (v, i)
      | VariableY desktop mobile \<Rightarrow>
          (let yPosConfig = (if IS_MOBILE then mobile else desktop) in
           case next_draw rnd i of
             Inl e \<Rightarrow> Inl e
           | Inr r \<Rightarrow>
               if yPosConfig = [] then Inl UndefinedValue
               else Inr (yPosConfig !
                           nat \<lfloor>getRandomNum 0 (real (length yPosConfig) - 1) r\<rfloor>, i + 1)))"

text \<open>
  The adjustment of the middle and last box of an obstacle of size above one. With fewer
  than three boxes, \<open>collisionBoxes[2]\<close> is \<open>undefined\<close> and the access raises.
\<close>

definition adjust_collisionBoxes :: "Obstacle \<Rightarrow> error + Obstacle" where
  "adjust_collisionBoxes ob =
     (if o_size ob > 1 then
        (case o_collisionBoxes ob of
           b0 # b1 # b2 # rest \<Rightarrow>
             Inr (ob\<lparr>o_collisionBoxes :=
                    b0 # b1\<lparr>box_width := o_width ob - box_width b0 - box_width b2\<rparr> #
                    b2\<lparr>box_x := o_width ob - box_width b2\<rparr> # rest\<rparr>)
         | _ \<Rightarrow> Inl TypeError)
      else Inr ob)"

text \<open>The random sign of the speed offset, for a type that has one.\<close>

definition choose_speedOffset ::
  "ObstacleType \<Rightarrow> (nat \<Rightarrow> real) \<Rightarrow> nat \<Rightarrow> Obstacle \<Rightarrow> error + (Obstacle \<times> nat)" where
  "choose_speedOffset ty rnd i ob =
     (if truthy (ty_speedOffset ty) then
        (case next_draw rnd i of
           Inl e \<Rightarrow> Inl e
         | Inr r \<Rightarrow>
             Inr (ob\<lparr>o_speedOffset :=
                       (if r > 1 / 2 then the (ty_speedOffset ty)
                        else - the (ty_speedOffset ty))\<rparr>, i + 1))
      else Inr (ob, i))"

definition Obstacle_init ::
  "bool \<Rightarrow> real \<Rightarrow> (nat \<Rightarrow> real) \<Rightarrow> nat \<Rightarrow> Obstacle \<Rightarrow> error + (Obstacle \<times> nat)" where
  "Obstacle_init IS_MOBILE speed rnd i ob0 =
     (let ty = o_typeConfig ob0;
          ob1 = ob0\<lparr>o_collisionBoxes := ty_collisionBoxes ty\<rparr>;
          ob2 = (if o_size ob1 > 1 \<and> ty_multipleSpeed ty > speed
                 then ob1\<lparr>o_size := 1\<rparr> else ob1);
          ob3 = ob2\<lparr>o_width := ty_width ty * o_size ob2\<rparr>
      in case choose_yPos IS_MOBILE ty rnd i of
           Inl e \<Rightarrow> Inl e
         | Inr (yp, i1) \<Rightarrow>
             (case adjust_collisionBoxes (ob3\<lparr>o_yPos := yp\<rparr>) of
                Inl e \<Rightarrow> Inl e
              | Inr ob5 \<Rightarrow>
                  (case choose_speedOffset ty rnd i1 ob5 of
                     Inl e \<Rightarrow> Inl e
                   | Inr (ob6, i2) \<Rightarrow>
                       (case next_draw rnd i2 of
                          Inl e \<Rightarrow> Inl e
                        | Inr r \<Rightarrow>
                            Inr (ob6\<lparr>o_gap := getGap ob6 (o_gapCoefficient ob6) speed r\<rparr>,
                                 i2 + 1)))))"

text \<open>
  \<open>new Obstacle(canvasCtx, type, spritePos, dimensions, gapCoefficient, speed, opt_xOffset)\<close>,
  without the canvas and the sprite position. The first draw is the size.
\<close>

definition new_Obstacle ::
  "bool \<Rightarrow> ObstacleType \<Rightarrow> Dimensions \<Rightarrow> real \<Rightarrow> real \<Rightarrow> real option \<Rightarrow>
   (nat \<Rightarrow> real) \<Rightarrow> nat \<Rightarrow> error + (Obstacle \<times> nat)" where
  "new_Obstacle IS_MOBILE ty dimensions gapCoefficient speed opt_xOffset rnd i =
     (case next_draw rnd i of
        Inl e \<Rightarrow> Inl e
      | Inr r \<Rightarrow>
          Obstacle_init IS_MOBILE speed rnd (i + 1)
            \<lparr>o_typeConfig = ty, o_gapCoefficient = gapCoefficient,
             o_size = getRandomNum 1 MAX_OBSTACLE_LENGTH r, o_remove = False,
             o_xPos = dim_WIDTH dimensions +
                      (if truthy opt_xOffset then the opt_xOffset else 0),
             o_yPos = 0, o_width = 0, o_collisionBoxes = [], o_gap = 0, o_speedOffset = 0,
             o_currentFrame = 0, o_timer = 0, o_followingObstacleCreated = False\<rparr>)"

section \<open>The horizon's obstacle spawner\<close>

record RunnerConfig =
  ACCELERATION :: real
  BOTTOM_PAD :: real
  CLEAR_TIME :: real
  GAP_COEFFICIENT :: real
  MAX_OBSTACLE_DUPLICATION :: nat
  MAX_SPEED :: real
  MOBILE_SPEED_COEFFICIENT :: real
  SPEED :: real

definition Runner_config :: RunnerConfig where
  "Runner_config =
     \<lparr>ACCELERATION = 1 / 1000, BOTTOM_PAD = 10, CLEAR_TIME = 3000,
      GAP_COEFFICIENT = 6 / 10, MAX_OBSTACLE_DUPLICATION = 2, MAX_SPEED = 13,
      MOBILE_SPEED_COEFFICIENT = 12 / 10, SPEED = 6\<rparr>"

definition Runner_defaultDimensions :: Dimensions where
  "Runner_defaultDimensions = \<lparr>dim_WIDTH = DEFAULT_WIDTH, dim_HEIGHT = 150\<rparr>"

text \<open>
  The part of \<open>Horizon\<close> that spawns obstacles: the list of obstacles and the history of
  spawned types, newest first. Clouds, the horizon line and the night mode are separate
  objects that do not touch these fields.
\<close>

record Horizon =
  h_dimensions :: Dimensions
  h_gapCoefficient :: real
  h_obstacles :: "Obstacle list"
  h_obstacleHistory :: "string list"

definition new_Horizon :: "Dimensions \<Rightarrow> real \<Rightarrow> Horizon" where
  "new_Horizon dimensions gapCoefficient =
     \<lparr>h_dimensions = dimensions, h_gapCoefficient = gapCoefficient,
      h_obstacles = [], h_obstacleHistory = []\<rparr>"

fun duplicate_loop :: "string \<Rightarrow> string list \<Rightarrow> nat \<Rightarrow> nat" where
  "duplicate_loop nextObstacleType [] duplicateCount = duplicateCount"
| "duplicate_loop nextObstacleType (h # hs) duplicateCount =
     duplicate_loop nextObstacleType hs
       (if h = nextObstacleType then duplicateCount + 1 else 0)"

definition duplicateObstacleCheck :: "RunnerConfig \<Rightarrow> Horizon \<Rightarrow> string \<Rightarrow> bool" where
  "duplicateObstacleCheck cfg hz nextObstacleType =
     (duplicate_loop nextObstacleType (h_obstacleHistory hz) 0
        \<ge> MAX_OBSTACLE_DUPLICATION cfg)"

text \<open>\<open>unshift\<close> of the new type, then \<open>splice(MAX_OBSTACLE_DUPLICATION)\<close> when the
  history holds more than one entry.\<close>

definition push_history :: "RunnerConfig \<Rightarrow> string \<Rightarrow> string list \<Rightarrow> string list" where
  "push_history cfg ty hist =
     (let hist1 = ty # hist
      in if length hist1 > 1 then take (MAX_OBSTACLE_DUPLICATION cfg) hist1 else hist1)"

text \<open>
  \<open>Horizon.prototype.addNewObstacle\<close>. The function calls itself until a drawn type
  passes both checks, so it is a partial function: \<open>None\<close> is a call that never returns,
  \<open>Some (Inl e)\<close> an exception, \<open>Some (Inr (hz, i))\<close> the horizon after the push and the
  next position in the random sequence.
\<close>

partial_function (option) addNewObstacle ::
  "RunnerConfig \<Rightarrow> bool \<Rightarrow> real \<Rightarrow> (nat \<Rightarrow> real) \<Rightarrow> nat \<Rightarrow> Horizon \<Rightarrow>
   (error + Horizon \<times> nat) option" where
  "addNewObstacle cfg IS_MOBILE currentSpeed rnd i hz =
     (case next_draw rnd i of
        Inl e \<Rightarrow> Some (Inl e)
      | Inr r \<Rightarrow>
          (let obstacleTypeIndex = getRandomNum 0 (real (length Obstacle_types) - 1) r;
               obstacleType = Obstacle_types ! nat \<lfloor>obstacleTypeIndex\<rfloor>
           in if duplicateObstacleCheck cfg hz (ty_type obstacleType) \<or>
                 currentSpeed < ty_minSpeed obstacleType
              then addNewObstacle cfg IS_MOBILE currentSpeed rnd (i + 1) hz
              else
                (case new_Obstacle IS_MOBILE obstacleType (h_dimensions hz)
                        (h_gapCoefficient hz) currentSpeed (Some (ty_width obstacleType))
                        rnd (i + 1) of
                   Inl e \<Rightarrow> Some (Inl e)
                 | Inr (ob, i') \<Rightarrow>
                     Some (Inr (hz\<lparr>h_obstacles := h_obstacles hz @ [ob],
                                    h_obstacleHistory :=
                                      push_history cfg (ty_type obstacleType)
                                        (h_obstacleHistory hz)\<rparr>, i')))))"

text \<open>
  A sequence of spawner invocations. Each invocation has its own speed and its own random
  sequence, since other draws (clouds, stars) happen between two invocations. The result
  is the list of types pushed, oldest first, or \<open>None\<close> when an invocation does not
  return an obstacle.
\<close>

fun spawned_types ::
  "RunnerConfig \<Rightarrow> bool \<Rightarrow> (real \<times> (nat \<Rightarrow> real)) list \<Rightarrow> Horizon \<Rightarrow> string list option" where
  "spawned_types cfg IS_MOBILE [] hz = Some []"
| "spawned_types cfg IS_MOBILE ((currentSpeed, rnd) # rest) hz =
     (case addNewObstacle cfg IS_MOBILE currentSpeed rnd 0 hz of
        Some (Inr (hz', i')) \<Rightarrow>
          (case spawned_types cfg IS_MOBILE rest hz' of
             Some tys \<Rightarrow> Some (ty_type (o_typeConfig (last (h_obstacles hz'))) # tys)
           | None \<Rightarrow> None)
      | _ \<Rightarrow> None)"

text \<open>The length of the longest run of equal consecutive entries of a list.\<close>

fun leading_run :: "'a \<Rightarrow> 'a list \<Rightarrow> nat" where
  "leading_run v [] = 0"
| "leading_run v (w # ws) = (if v = w then Suc (leading_run v ws) else 0)"

fun longest_run :: "'a list \<Rightarrow> nat" where
  "longest_run [] = 0"
| "longest_run (v # vs) = max (Suc (leading_run v vs)) (longest_run vs)"

text \<open>A type that the selection accepts: available at the speed and not a duplicate.\<close>

definition acceptable :: "RunnerConfig \<Rightarrow> real \<Rightarrow> Horizon \<Rightarrow> ObstacleType \<Rightarrow> bool" where
  "acceptable cfg currentSpeed hz ty =
     (\<not> duplicateObstacleCheck cfg hz (ty_type ty) \<and> \<not> currentSpeed < ty_minSpeed ty)"

definition drawn_type :: "real \<Rightarrow> ObstacleType" where
  "drawn_type r =
     Obstacle_types ! nat \<lfloor>getRandomNum 0 (real (length Obstacle_types) - 1) r\<rfloor>"

definition always_pterodactyl :: "nat \<Rightarrow> real" where
  "always_pterodactyl n = 9 / 10"

section \<open>T-rex physics and animation state\<close>

text \<open>
  What a call reads from the outside: the two time stamps that \<open>update\<close> may take
  (\<open>getTimeStamp()\<close> for the animation start and for the blink) and the two draws that
  \<open>setBlinkDelay\<close> may use.
\<close>

record Env =
  env_time1 :: real
  env_time2 :: real
  env_draw1 :: real
  env_draw2 :: real

definition setBlinkDelay :: "real \<Rightarrow> Trex \<Rightarrow> Trex" where
  "setBlinkDelay r tRex = tRex\<lparr>t_blinkDelay := of_int \<lceil>r * BLINK_TIMING\<rceil>\<rparr>"

text \<open>\<open>draw\<close> paints; its one effect on the state is the shift of a T-rex that crashed
  while ducking.\<close>

definition Trex_draw :: "Trex \<Rightarrow> Trex" where
  "Trex_draw tRex =
     (if t_ducking tRex \<and> t_status tRex \<noteq> CRASHED then tRex
      else if t_ducking tRex \<and> t_status tRex = CRASHED
           then tRex\<lparr>t_xPos := t_xPos tRex + 1\<rparr>
           else tRex)"

definition blink :: "real \<Rightarrow> real \<Rightarrow> Trex \<Rightarrow> Trex" where
  "blink r time tRex =
     (let deltaTime = time - t_animStartTime tRex in
      if deltaTime \<ge> t_blinkDelay tRex then
        (let t1 = Trex_draw tRex in
         if t_currentFrame t1 = 1
         then (setBlinkDelay r t1)\<lparr>t_animStartTime := time,
                                    t_blinkCount := t_blinkCount t1 + 1\<rparr>
         else t1)
      else tRex)"

text \<open>\<open>Trex.prototype.update\<close> up to, and without, its last statement (the speed drop
  that becomes a duck).\<close>

definition Trex_update_body :: "Env \<Rightarrow> real \<Rightarrow> status option \<Rightarrow> Trex \<Rightarrow> Trex" where
  "Trex_update_body env deltaTime opt_status tRex =
     (let t1 = tRex\<lparr>t_timer := t_timer tRex + deltaTime\<rparr>;
          t2 = (case opt_status of
                  None \<Rightarrow> t1
                | Some st \<Rightarrow>
                    (let t1s = t1\<lparr>t_status := st, t_currentFrame := 0,
                                   t_msPerFrame := animFrames_msPerFrame st,
                                   t_currentAnimFrames := animFrames_frames st\<rparr>
                     in if st = WAITING
                        then setBlinkDelay (env_draw1 env)
                               (t1s\<lparr>t_animStartTime := env_time1 env\<rparr>)
                        else t1s));
          t3 = (if t_playingIntro t2 \<and> t_xPos t2 < START_X_POS (t_config t2)
                then t2\<lparr>t_xPos := t_xPos t2 +
                            Math_round ((START_X_POS (t_config t2) /
                                         INTRO_DURATION (t_config t2)) * deltaTime)\<rparr>
                else t2);
          t4 = (if t_status t3 = WAITING then blink (env_draw2 env) (env_time2 env) t3
                else Trex_draw t3)
      in if t_timer t4 \<ge> t_msPerFrame t4
         then t4\<lparr>t_currentFrame :=
                    (if t_currentFrame t4 = real (length (t_currentAnimFrames t4)) - 1
                     then 0 else t_currentFrame t4 + 1),
                  t_timer := 0\<rparr>
         else t4)"

text \<open>\<open>setDuck\<close>, over the \<open>update\<close> it calls.\<close>

definition setDuck_with ::
  "(real \<Rightarrow> status option \<Rightarrow> Trex \<Rightarrow> Trex) \<Rightarrow> bool \<Rightarrow> Trex \<Rightarrow> Trex" where
  "setDuck_with upd isDucking tRex =
     (if isDucking \<and> t_status tRex \<noteq> DUCKING
      then (upd 0 (Some DUCKING) tRex)\<lparr>t_ducking := True\<rparr>
      else if t_status tRex = DUCKING
           then (upd 0 (Some RUNNING) tRex)\<lparr>t_ducking := False\<rparr>
           else tRex)"

text \<open>
  \<open>update\<close> and \<open>setDuck\<close> call each other. \<open>update\<close> clears \<open>speedDrop\<close> before it
  calls \<open>setDuck\<close>, and nothing in between sets it again, so the \<open>update\<close> inside that
  \<open>setDuck\<close> never reaches its own last statement: it is \<open>Trex_update_body\<close>.
\<close>

definition Trex_update :: "Env \<Rightarrow> real \<Rightarrow> status option \<Rightarrow> Trex \<Rightarrow> Trex" where
  "Trex_update env deltaTime opt_status tRex =
     (let t5 = Trex_update_body env deltaTime opt_status tRex
      in if t_speedDrop t5 \<and> t_yPos t5 = t_groundYPos t5
         then setDuck_with (Trex_update_body env) True (t5\<lparr>t_speedDrop := False\<rparr>)
         else t5)"

definition setDuck :: "Env \<Rightarrow> bool \<Rightarrow> Trex \<Rightarrow> Trex" where
  "setDuck env isDucking tRex = setDuck_with (Trex_update env) isDucking tRex"

definition startJump :: "Env \<Rightarrow> real \<Rightarrow> Trex \<Rightarrow> Trex" where
  "startJump env speed tRex =
     (if \<not> t_jumping tRex
      then (Trex_update env 0 (Some JUMPING) tRex)
             \<lparr>t_jumpVelocity := INIITAL_JUMP_VELOCITY (t_config tRex) - (speed / 10),
              t_jumping := True, t_reachedMinHeight := False, t_speedDrop := False\<rparr>
      else tRex)"

definition endJump :: "Trex \<Rightarrow> Trex" where
  "endJump tRex =
     (if t_reachedMinHeight tRex \<and> t_jumpVelocity tRex < DROP_VELOCITY (t_config tRex)
      then tRex\<lparr>t_jumpVelocity := DROP_VELOCITY (t_config tRex)\<rparr>
      else tRex)"

definition setSpeedDrop :: "Trex \<Rightarrow> Trex" where
  "setSpeedDrop tRex = tRex\<lparr>t_speedDrop := True, t_jumpVelocity := 1\<rparr>"

definition Trex_reset :: "Env \<Rightarrow> Trex \<Rightarrow> Trex" where
  "Trex_reset env tRex =
     (Trex_update env 0 (Some RUNNING)
        (tRex\<lparr>t_yPos := t_groundYPos tRex, t_jumpVelocity := 0,
               t_jumping := False, t_ducking := False\<rparr>))
       \<lparr>t_midair := False, t_speedDrop := False, t_jumpCount := 0\<rparr>"

text \<open>The position and velocity after the integration step of \<open>updateJump\<close>, and after
  the two height checks.\<close>

definition jump_step :: "real \<Rightarrow> Trex \<Rightarrow> Trex" where
  "jump_step deltaTime tRex =
     (let msPerFrame = animFrames_msPerFrame (t_status tRex);
          framesElapsed = deltaTime / msPerFrame;
          t1 = (if t_speedDrop tRex
                then tRex\<lparr>t_yPos := t_yPos tRex +
                             Math_round (t_jumpVelocity tRex *
                               SPEED_DROP_COEFFICIENT (t_config tRex) * framesElapsed)\<rparr>
                else tRex\<lparr>t_yPos := t_yPos tRex +
                             Math_round (t_jumpVelocity tRex * framesElapsed)\<rparr>);
          t2 = t1\<lparr>t_jumpVelocity := t_jumpVelocity t1 +
                                      GRAVITY (t_config t1) * framesElapsed\<rparr>;
          t3 = (if t_yPos t2 < t_minJumpHeight t2 \<or> t_speedDrop t2
                then t2\<lparr>t_reachedMinHeight := True\<rparr> else t2)
      in if t_yPos t3 < MAX_JUMP_HEIGHT (t_config t3) \<or> t_speedDrop t3
         then endJump t3 else t3)"

definition updateJump :: "Env \<Rightarrow> real \<Rightarrow> Trex \<Rightarrow> Trex" where
  "updateJump env deltaTime tRex =
     (let t4 = jump_step deltaTime tRex;
          t5 = (if t_yPos t4 > t_groundYPos t4
                then (let t4r = Trex_reset env t4
                      in t4r\<lparr>t_jumpCount := t_jumpCount t4r + 1\<rparr>)
                else t4)
      in Trex_update env deltaTime None t5)"

text \<open>The integration step carries the actor past ground level.\<close>

definition lands :: "real \<Rightarrow> Trex \<Rightarrow> bool" where
  "lands deltaTime tRex =
     (t_yPos (jump_step deltaTime tRex) > t_groundYPos (jump_step deltaTime tRex))"

text \<open>\<open>new Trex(canvas, spritePos)\<close> with its \<open>init\<close>.\<close>

definition new_Trex :: "Env \<Rightarrow> RunnerConfig \<Rightarrow> Trex" where
  "new_Trex env cfg =
     (let ground = dim_HEIGHT Runner_defaultDimensions - HEIGHT Trex_config - BOTTOM_PAD cfg
      in Trex_update env 0 (Some WAITING)
           (Trex_draw
              \<lparr>t_config = Trex_config, t_xPos = 0, t_yPos = ground, t_groundYPos = ground,
               t_minJumpHeight = ground - MIN_JUMP_HEIGHT Trex_config,
               t_currentFrame = 0, t_currentAnimFrames = [], t_blinkDelay = 0,
               t_blinkCount = 0, t_animStartTime = 0, t_timer = 0, t_msPerFrame = 1000 / FPS,
               t_status = WAITING, t_jumping = False, t_ducking = False, t_jumpVelocity = 0,
               t_reachedMinHeight = False, t_speedDrop = False, t_jumpCount = 0,
               t_playingIntro = False, t_midair = False\<rparr>))"

section \<open>The distance meter\<close>

record DistanceMeterConfig =
  MAX_DISTANCE_UNITS :: nat
  ACHIEVEMENT_DISTANCE :: real
  COEFFICIENT :: real
  FLASH_DURATION :: real
  FLASH_ITERATIONS :: nat

definition DistanceMeter_config :: DistanceMeterConfig where
  "DistanceMeter_config =
     \<lparr>MAX_DISTANCE_UNITS = 5, ACHIEVEMENT_DISTANCE = 100, COEFFICIENT = 25 / 1000,
      FLASH_DURATION = 1000 / 4, FLASH_ITERATIONS = 3\<rparr>"

text \<open>
  The fields of the meter that \<open>update\<close> reads or writes. \<open>dm_distance\<close> is the
  \<open>distance\<close> property that \<open>update\<close> sets to zero; the high score string and the
  canvas position are written by other methods only.
\<close>

record DistanceMeter =
  dm_config :: DistanceMeterConfig
  dm_maxScore :: real
  dm_maxScoreUnits :: nat
  dm_digits :: string
  dm_acheivement :: bool
  dm_defaultString :: string
  dm_flashTimer :: real
  dm_flashIterations :: nat
  dm_distance :: "real option"

text \<open>The decimal digits of a natural number, as \<open>String(n)\<close> writes them.\<close>

fun decimal :: "nat \<Rightarrow> string" where
  "decimal n =
     (if n < 10 then [''0123456789'' ! n]
      else decimal (n div 10) @ [''0123456789'' ! (n mod 10)])"

declare decimal.simps [simp del]

text \<open>\<open>s.substr(-n)\<close>: the last \<open>n\<close> characters, the whole string when it is shorter
  or when \<open>n\<close> is zero (\<open>substr(-0)\<close> starts at index zero).\<close>

definition substr_last :: "nat \<Rightarrow> string \<Rightarrow> string" where
  "substr_last n s = (if n = 0 then s else drop (length s - n) s)"

text \<open>\<open>a % b == 0\<close> for numbers: false when \<open>b\<close> is zero (the remainder is \<open>NaN\<close>).\<close>

definition remainder_is_zero :: "real \<Rightarrow> real \<Rightarrow> bool" where
  "remainder_is_zero a b =
     (b \<noteq> 0 \<and> \<bar>a\<bar> - \<bar>b\<bar> * of_int \<lfloor>\<bar>a\<bar> / \<bar>b\<bar>\<rfloor> = 0)"

definition getActualDistance :: "DistanceMeter \<Rightarrow> real option \<Rightarrow> real" where
  "getActualDistance m distance =
     (if truthy distance then Math_round (the distance * COEFFICIENT (dm_config m)) else 0)"

text \<open>
  \<open>new DistanceMeter(canvas, spritePos, canvasWidth)\<close> with its \<open>init\<close>: the default
  string of zeros and the largest score of the initial width, \<open>parseInt('9...9')\<close>
  (for a positive number of digits).
\<close>

definition new_DistanceMeter :: "DistanceMeterConfig \<Rightarrow> DistanceMeter" where
  "new_DistanceMeter cfg =
     \<lparr>dm_config = cfg, dm_maxScore = 10 ^ MAX_DISTANCE_UNITS cfg - 1,
      dm_maxScoreUnits = MAX_DISTANCE_UNITS cfg, dm_digits = [],
      dm_acheivement = False,
      dm_defaultString = replicate (MAX_DISTANCE_UNITS cfg) (CHR ''0''),
      dm_flashTimer = 0, dm_flashIterations = 0, dm_distance = None\<rparr>"

text \<open>
  \<open>DistanceMeter.prototype.update(deltaTime, distance)\<close>. The result is the meter, the
  local \<open>paint\<close> (whether the digits are drawn in this call) and the returned
  \<open>playSound\<close>. \<open>parseInt(this.maxScore + '9')\<close> appends a digit nine.
\<close>

definition DistanceMeter_update ::
  "real \<Rightarrow> real option \<Rightarrow> DistanceMeter \<Rightarrow> DistanceMeter \<times> bool \<times> bool" where
  "DistanceMeter_update deltaTime distance0 m =
     (if \<not> dm_acheivement m then
        (let distance = getActualDistance m distance0;
             m1 = (if distance > dm_maxScore m \<and>
                      dm_maxScoreUnits m = MAX_DISTANCE_UNITS (dm_config m)
                   then m\<lparr>dm_maxScoreUnits := dm_maxScoreUnits m + 1,
                           dm_maxScore := dm_maxScore m * 10 + 9\<rparr>
                   else m\<lparr>dm_distance := Some 0\<rparr>)
         in if distance > 0 then
              (let unlocked = remainder_is_zero distance (ACHIEVEMENT_DISTANCE (dm_config m1));
                   m2 = (if unlocked then m1\<lparr>dm_acheivement := True, dm_flashTimer := 0\<rparr>
                         else m1)
               in (m2\<lparr>dm_digits := substr_last (dm_maxScoreUnits m2)
                                       (dm_defaultString m2 @ decimal (nat \<lfloor>distance\<rfloor>))\<rparr>,
                   True, unlocked))
            else (m1\<lparr>dm_digits := dm_defaultString m1\<rparr>, True, False))
      else if dm_flashIterations m \<le> FLASH_ITERATIONS (dm_config m) then
        (let m1 = m\<lparr>dm_flashTimer := dm_flashTimer m + deltaTime\<rparr>
         in if dm_flashTimer m1 < FLASH_DURATION (dm_config m1) then (m1, False, False)
            else if dm_flashTimer m1 > FLASH_DURATION (dm_config m1) * 2
                 then (m1\<lparr>dm_flashTimer := 0,
                            dm_flashIterations := dm_flashIterations m1 + 1\<rparr>, True, False)
                 else (m1, True, False))
      else (m\<lparr>dm_acheivement := False, dm_flashIterations := 0, dm_flashTimer := 0\<rparr>,
            True, False))"

text \<open>A sequence of \<open>update\<close> calls, each with its \<open>deltaTime\<close> and raw distance.\<close>

fun DistanceMeter_updates :: "(real \<times> real option) list \<Rightarrow> DistanceMeter \<Rightarrow> DistanceMeter" where
  "DistanceMeter_updates [] m = m"
| "DistanceMeter_updates ((deltaTime, distance) # rest) m =
     DistanceMeter_updates rest (fst (DistanceMeter_update deltaTime distance m))"

text \<open>The same sequence, returning the \<open>paint\<close> flag of every call.\<close>

fun paint_trace :: "(real \<times> real option) list \<Rightarrow> DistanceMeter \<Rightarrow> bool list" where
  "paint_trace [] m = []"
| "paint_trace ((deltaTime, distance) # rest) m =
     fst (snd (DistanceMeter_update deltaTime distance m)) #
     paint_trace rest (fst (DistanceMeter_update deltaTime distance m))"

section \<open>The night mode\<close>

definition FADE_SPEED :: real where
  "FADE_SPEED = 35 / 1000"

definition MOON_SPEED :: real where
  "MOON_SPEED = 1 / 4"

definition STAR_SPEED :: real where
  "STAR_SPEED = 3 / 10"

definition STAR_MAX_Y :: real where
  "STAR_MAX_Y = 70"

definition NUM_STARS :: real where
  "NUM_STARS = 2"

definition NightMode_WIDTH :: real where
  "NightMode_WIDTH = 20"

definition NightMode_phases :: "real list" where
  "NightMode_phases = [140, 120, 100, 60, 40, 20, 0]"

record NightMode =
  nm_xPos :: real
  nm_yPos :: real
  nm_currentPhase :: nat
  nm_opacity :: real
  nm_containerWidth :: real
  nm_stars :: "(real \<times> real) list"
  nm_drawStars :: bool

text \<open>\<open>placeStars\<close> draws four numbers: \<open>x\<close> and \<open>y\<close> of the first star, then of the
  second.\<close>

definition placeStars :: "(nat \<Rightarrow> real) \<Rightarrow> NightMode \<Rightarrow> NightMode" where
  "placeStars rnd nm =
     (let segmentSize = Math_round (nm_containerWidth nm / NUM_STARS)
      in nm\<lparr>nm_stars :=
               [(getRandomNum (segmentSize * 0) (segmentSize * 1) (rnd 0),
                 getRandomNum 0 STAR_MAX_Y (rnd 1)),
                (getRandomNum (segmentSize * 1) (segmentSize * 2) (rnd 2),
                 getRandomNum 0 STAR_MAX_Y (rnd 3))]\<rparr>)"

definition updateXPos :: "NightMode \<Rightarrow> real \<Rightarrow> real \<Rightarrow> real" where
  "updateXPos nm currentPos speed =
     (if currentPos < - NightMode_WIDTH then nm_containerWidth nm else currentPos - speed)"

definition new_NightMode :: "(nat \<Rightarrow> real) \<Rightarrow> real \<Rightarrow> NightMode" where
  "new_NightMode rnd containerWidth =
     placeStars rnd
       \<lparr>nm_xPos = containerWidth - 50, nm_yPos = 30, nm_currentPhase = 0, nm_opacity = 0,
        nm_containerWidth = containerWidth, nm_stars = [], nm_drawStars = False\<rparr>"

text \<open>\<open>NightMode.prototype.update(activated, delta)\<close>; \<open>delta\<close> is not read.\<close>

definition NightMode_update :: "bool \<Rightarrow> (nat \<Rightarrow> real) \<Rightarrow> NightMode \<Rightarrow> NightMode" where
  "NightMode_update activated rnd nm =
     (let n1 = (if activated \<and> nm_opacity nm = 0
                then nm\<lparr>nm_currentPhase :=
                          (if nm_currentPhase nm + 1 \<ge> length NightMode_phases then 0
                           else nm_currentPhase nm + 1)\<rparr>
                else nm);
          n2 = (if activated \<and> (nm_opacity n1 < 1 \<or> nm_opacity n1 = 0)
                then n1\<lparr>nm_opacity := nm_opacity n1 + FADE_SPEED\<rparr>
                else if nm_opacity n1 > 0
                     then n1\<lparr>nm_opacity := nm_opacity n1 - FADE_SPEED\<rparr>
                     else n1);
          n3 = (if nm_opacity n2 > 0
                then (let n2x = n2\<lparr>nm_xPos := updateXPos n2 (nm_xPos n2) MOON_SPEED\<rparr>
                      in if nm_drawStars n2x
                         then n2x\<lparr>nm_stars :=
                                    map (\<lambda>(sx, sy). (updateXPos n2x sx STAR_SPEED, sy))
                                      (nm_stars n2x)\<rparr>
                         else n2x)
                else placeStars rnd (n2\<lparr>nm_opacity := 0\<rparr>))
      in n3\<lparr>nm_drawStars := True\<rparr>)"

definition NightMode_reset :: "(nat \<Rightarrow> real) \<Rightarrow> NightMode \<Rightarrow> NightMode" where
  "NightMode_reset rnd nm =
     NightMode_update False rnd (nm\<lparr>nm_currentPhase := 0, nm_opacity := 0\<rparr>)"

text \<open>A sequence of calls on the night mode, each with its random sequence.\<close>

datatype night_call = Update bool | Reset

fun NightMode_call :: "night_call \<times> (nat \<Rightarrow> real) \<Rightarrow> NightMode \<Rightarrow> NightMode" where
  "NightMode_call (Update activated, rnd) nm = NightMode_update activated rnd nm"
| "NightMode_call (Reset, rnd) nm = NightMode_reset rnd nm"

fun NightMode_calls :: "(night_call \<times> (nat \<Rightarrow> real)) list \<Rightarrow> NightMode \<Rightarrow> NightMode" where
  "NightMode_calls [] nm = nm"
| "NightMode_calls (c # cs) nm = NightMode_calls cs (NightMode_call c nm)"

definition no_draws :: "nat \<Rightarrow> real" where
  "no_draws n = 0"

section \<open>The controller's speed\<close>

text \<open>
  The fields of \<open>Runner\<close> that decide the speed: the configuration, the canvas
  dimensions, the distance, the speed and the three phase flags. The T-rex, the horizon
  and the distance meter are updated by the same tick but never write these fields; what
  the tick reads from them is the outcome of the collision test, an argument here.
\<close>

record Runner =
  r_config :: RunnerConfig
  r_dimensions :: Dimensions
  r_distanceRan :: real
  r_msPerFrame :: real
  r_currentSpeed :: real
  r_playing :: bool
  r_crashed :: bool
  r_paused :: bool

text \<open>The constructor: the configuration given or the default one, lowered on a low-end
  device.\<close>

definition new_Runner :: "RunnerConfig option \<Rightarrow> bool \<Rightarrow> Runner" where
  "new_Runner opt_config isLowEndDevice =
     (let config0 = (case opt_config of None \<Rightarrow> Runner_config | Some c \<Rightarrow> c);
          config = (if isLowEndDevice
                    then config0\<lparr>MAX_SPEED := min (MAX_SPEED config0) 10,
                                 ACCELERATION := ACCELERATION config0 * (8 / 10)\<rparr>
                    else config0)
      in \<lparr>r_config = config, r_dimensions = Runner_defaultDimensions, r_distanceRan = 0,
          r_msPerFrame = 1000 / FPS, r_currentSpeed = SPEED config,
          r_playing = False, r_crashed = False, r_paused = False\<rparr>)"

definition setSpeed :: "real option \<Rightarrow> Runner \<Rightarrow> Runner" where
  "setSpeed opt_speed r =
     (let speed = (if truthy opt_speed then the opt_speed else r_currentSpeed r)
      in if dim_WIDTH (r_dimensions r) < DEFAULT_WIDTH then
           (let mobileSpeed = speed * dim_WIDTH (r_dimensions r) / DEFAULT_WIDTH *
                                MOBILE_SPEED_COEFFICIENT (r_config r)
            in r\<lparr>r_currentSpeed := (if mobileSpeed > speed then speed else mobileSpeed)\<rparr>)
         else if truthy opt_speed then r\<lparr>r_currentSpeed := the opt_speed\<rparr>
         else r)"

text \<open>What \<open>adjustDimensions\<close> reads from the page, and the width it computes.\<close>

record Viewport =
  vp_offsetWidth :: real
  vp_padding :: real
  vp_innerWidth :: real
  vp_IS_MOBILE :: bool

definition adjustDimensions :: "Viewport \<Rightarrow> Runner \<Rightarrow> Runner" where
  "adjustDimensions vp r =
     (let w1 = min DEFAULT_WIDTH (vp_offsetWidth vp - vp_padding vp * 2);
          w2 = (if vp_IS_MOBILE vp \<or> vp_innerWidth vp \<le> 768
                then min (vp_innerWidth vp * (95 / 100)) DEFAULT_WIDTH else w1)
      in r\<lparr>r_dimensions := (r_dimensions r)\<lparr>dim_WIDTH := w2\<rparr>\<rparr>)"

definition Runner_init :: "Viewport \<Rightarrow> Runner \<Rightarrow> Runner" where
  "Runner_init vp r = setSpeed None (adjustDimensions vp r)"

definition Runner_stop :: "Runner \<Rightarrow> Runner" where
  "Runner_stop r = r\<lparr>r_playing := False, r_paused := True\<rparr>"

definition gameOver :: "Runner \<Rightarrow> Runner" where
  "gameOver r = (Runner_stop r)\<lparr>r_crashed := True\<rparr>"

text \<open>
  One tick, \<open>Runner.prototype.update\<close>, on these fields. \<open>deltaTime\<close> is the time the
  tick adds to the distance and \<open>collision\<close> the value of
  \<open>hasObstacles && checkForCollision(...)\<close>.
\<close>

definition Runner_update :: "real \<Rightarrow> bool \<Rightarrow> Runner \<Rightarrow> Runner" where
  "Runner_update deltaTime collision r =
     (if r_playing r then
        (if \<not> collision then
           (let r1 = r\<lparr>r_distanceRan := r_distanceRan r +
                         r_currentSpeed r * deltaTime / r_msPerFrame r\<rparr>
            in if r_currentSpeed r1 < MAX_SPEED (r_config r1)
               then r1\<lparr>r_currentSpeed := r_currentSpeed r1 + ACCELERATION (r_config r1)\<rparr>
               else r1)
         else gameOver r)
      else r)"

text \<open>
  The other entries: the first key press, which starts playing and ticks; \<open>stop\<close> and
  \<open>play\<close> on a change of visibility; \<open>restart\<close>, whose tick runs with no obstacle on
  the cleared horizon; a resize of the window, which recomputes the width and stops a
  game that has started. The guard of \<open>restart\<close> on a pending frame is left out, which
  only allows more runs. The debugging entry \<open>updateConfigSetting\<close>, which overwrites
  any setting, is not an event of the game and is not modelled.
\<close>

datatype event =
    Frame real bool
  | KeyStart real bool
  | Stop
  | Play real bool
  | Restart real
  | Resize Viewport

fun Runner_event :: "event \<Rightarrow> Runner \<Rightarrow> Runner" where
  "Runner_event (Frame deltaTime collision) r = Runner_update deltaTime collision r"
| "Runner_event (KeyStart deltaTime collision) r =
     (if \<not> r_crashed r \<and> \<not> r_playing r
      then Runner_update deltaTime collision (r\<lparr>r_playing := True\<rparr>)
      else r)"
| "Runner_event Stop r = Runner_stop r"
| "Runner_event (Play deltaTime collision) r =
     (if \<not> r_crashed r
      then Runner_update deltaTime collision (r\<lparr>r_playing := True, r_paused := False\<rparr>)
      else r)"
| "Runner_event (Restart deltaTime) r =
     Runner_update deltaTime False
       (setSpeed (Some (SPEED (r_config r)))
          (r\<lparr>r_playing := True, r_crashed := False, r_distanceRan := 0\<rparr>))"
| "Runner_event (Resize vp) r =
     (let r1 = adjustDimensions vp r
      in if r_playing r1 \<or> r_crashed r1 \<or> r_paused r1 then Runner_stop r1 else r1)"

fun Runner_events :: "event list \<Rightarrow> Runner \<Rightarrow> Runner" where
  "Runner_events [] r = r"
| "Runner_events (e # es) r = Runner_events es (Runner_event e r)"

section \<open>Concrete objects\<close>

text \<open>A small cactus of size one at a given \<open>x\<close> position, as the constructor leaves it
  (height 105), and a T-rex of the default configuration on a 150 pixel canvas.\<close>

definition small_cactus_at :: "real \<Rightarrow> Obstacle" where
  "small_cactus_at px =
     \<lparr>o_typeConfig = CACTUS_SMALL, o_gapCoefficient = 6 / 10, o_size = 1, o_remove = False,
      o_xPos = px, o_yPos = 105, o_width = 17,
      o_collisionBoxes = [mkBox 0 7 5 27, mkBox 4 0 6 34, mkBox 10 4 7 14],
      o_gap = 200, o_speedOffset = 0, o_currentFrame = 0, o_timer = 0,
      o_followingObstacleCreated = False\<rparr>"

definition running_trex :: Trex where
  "running_trex =
     \<lparr>t_config = Trex_config, t_xPos = 0, t_yPos = 93, t_groundYPos = 93,
      t_minJumpHeight = 63, t_currentFrame = 0, t_currentAnimFrames = [88, 132],
      t_blinkDelay = 0, t_blinkCount = 0, t_animStartTime = 0, t_timer = 0,
      t_msPerFrame = 1000 / 12, t_status = RUNNING, t_jumping = False, t_ducking = False,
      t_jumpVelocity = 0, t_reachedMinHeight = False, t_speedDrop = False, t_jumpCount = 0,
      t_playingIntro = False, t_midair = False\<rparr>"

definition ducking_trex :: Trex where
  "ducking_trex =
     running_trex\<lparr>t_status := DUCKING, t_ducking := True,
                   t_currentAnimFrames := [264, 323], t_msPerFrame := 1000 / 8\<rparr>"

definition quiet_env :: Env where
  "quiet_env = \<lparr>env_time1 = 0, env_time2 = 0, env_draw1 = 0, env_draw2 = 0\<rparr>"

definition phone_viewport :: Viewport where
  "phone_viewport =
     \<lparr>vp_offsetWidth = 393, vp_padding = 0, vp_innerWidth = 393, vp_IS_MOBILE = True\<rparr>"

definition desktop_viewport :: Viewport where
  "desktop_viewport =
     \<lparr>vp_offsetWidth = 1280, vp_padding = 0, vp_innerWidth = 1280, vp_IS_MOBILE = False\<rparr>"

text \<open>The invariant of the speed: the configuration is the one of the constructor and
  the speed is below the cap plus one step.\<close>

definition speed_inv :: "RunnerConfig \<Rightarrow> Runner \<Rightarrow> bool" where
  "speed_inv cfg r = (r_config r = cfg \<and> r_currentSpeed r < MAX_SPEED cfg + ACCELERATION cfg)"

text \<open>The meter right after the call that enters the achievement state at a real
  distance of 100.\<close>

definition flashing_meter :: DistanceMeter where
  "flashing_meter =
     fst (DistanceMeter_update 16 (Some 4000) (new_DistanceMeter DistanceMeter_config))"

text \<open>Two T-rexes in the air, three pixels above the ground and moving down: one in a
  plain fall, one in a speed drop after an earlier completed jump.\<close>

definition falling_trex :: Trex where
  "falling_trex =
     running_trex\<lparr>t_status := JUMPING, t_jumping := True, t_yPos := 90,
                   t_jumpVelocity := 6, t_reachedMinHeight := True,
                   t_currentAnimFrames := [0], t_msPerFrame := 1000 / 60\<rparr>"

definition dropping_trex :: Trex where
  "dropping_trex = falling_trex\<lparr>t_jumpVelocity := 4, t_speedDrop := True, t_jumpCount := 1\<rparr>"

text \<open>The bounds of the gap in the words of the specification:
  \<open>minGap = round(width \<times> speed + type.minGap \<times> gapCoefficient)\<close> and
  \<open>maxGap = round(1.5 \<times> minGap)\<close>.\<close>

definition gap_lo :: "Obstacle \<Rightarrow> real \<Rightarrow> real" where
  "gap_lo ob speed =
     Math_round (o_width ob * speed + ty_minGap (o_typeConfig ob) * o_gapCoefficient ob)"

definition gap_hi :: "Obstacle \<Rightarrow> real \<Rightarrow> real" where
  "gap_hi ob speed = Math_round (3 / 2 * gap_lo ob speed)"

text \<open>The small cactus that the constructor returns at speed 6 when every draw is 0.\<close>

definition spawned_cactus :: Obstacle where
  "spawned_cactus = (small_cactus_at 617)\<lparr>o_gap := 174\<rparr>"

text \<open>A random sequence whose first draw selects the pterodactyl and whose later draws
  are 0.\<close>

definition pterodactyl_first :: "nat \<Rightarrow> real" where
  "pterodactyl_first n = (if n = 0 then 9 / 10 else 0)"

section \<open>Properties: collision detection\<close>

lemma adjusted_compare:
  "boxCompare (createAdjustedCollisionBox tb (outer_tRexBox tRex))
     (createAdjustedCollisionBox cb (outer_obstacleBox obstacle)) =
   boxes_overlap (world_box (t_xPos tRex) (t_yPos tRex) tb)
     (world_box (o_xPos obstacle) (o_yPos obstacle) cb)"
  by (auto simp: boxCompare_def createAdjustedCollisionBox_def outer_tRexBox_def
      outer_obstacleBox_def boxes_overlap_def world_box_def intervals_meet_def mkBox_def)

lemma obstacleBoxes_loop_hit:
  "(obstacleBoxes_loop T B tb cbs \<noteq> None) =
   (\<exists>cb \<in> set cbs.
      boxCompare (createAdjustedCollisionBox tb T) (createAdjustedCollisionBox cb B))"
  by (induction cbs) (auto simp: Let_def)

lemma tRexBoxes_loop_hit:
  "(tRexBoxes_loop T B tbs cbs \<noteq> None) =
   (\<exists>tb \<in> set tbs. \<exists>cb \<in> set cbs.
      boxCompare (createAdjustedCollisionBox tb T) (createAdjustedCollisionBox cb B))"
proof (induction tbs)
  case Nil
  show ?case by simp
next
  case (Cons tb tbs)
  show ?case
  proof (cases "obstacleBoxes_loop T B tb cbs")
    case None
    with obstacleBoxes_loop_hit [of T B tb cbs] Cons show ?thesis by simp
  next
    case (Some pair)
    with obstacleBoxes_loop_hit [of T B tb cbs] show ?thesis by auto
  qed
qed

text \<open>
  C1, as stated, fails: a ducking T-rex at \<open>x = 0\<close> on the ground and a small cactus at
  \<open>x = 45\<close>. The ducking box reaches to \<open>x = 56\<close> and overlaps the first box of the
  cactus on both axes, but the outer bounds check uses the standing width of 44 and
  rejects the pair, so no collision is reported.
\<close>

theorem collision_counterexample:
  "checkForCollision (small_cactus_at 45) ducking_trex = None \<and>
   some_boxes_overlap (small_cactus_at 45) ducking_trex"
  by (simp add: checkForCollision_def Let_def small_cactus_at_def ducking_trex_def
      running_trex_def outer_tRexBox_def outer_obstacleBox_def boxCompare_def mkBox_def
      CACTUS_SMALL_def Trex_config_def some_boxes_overlap_def tRexCollisionBoxes_def
      Trex_collisionBoxes_DUCKING_def boxes_overlap_def world_box_def intervals_meet_def)

text \<open>
  C1, amended: for every obstacle and every T-rex state, \<open>checkForCollision\<close> reports a
  collision if and only if the outer bounding boxes of the T-rex and of the obstacle
  overlap and some T-rex collision box (the ducking set when ducking, otherwise the
  running set), moved to world coordinates by the position of the T-rex, overlaps some
  collision box of the obstacle, moved by the position of the obstacle, on both axes.
\<close>

theorem collision_iff_outer_and_inner:
  "(checkForCollision obstacle tRex \<noteq> None) =
   (boxCompare (outer_tRexBox tRex) (outer_obstacleBox obstacle) \<and>
    some_boxes_overlap obstacle tRex)"
proof (cases "boxCompare (outer_tRexBox tRex) (outer_obstacleBox obstacle)")
  case False
  then show ?thesis by (simp add: checkForCollision_def Let_def)
next
  case True
  then have "checkForCollision obstacle tRex =
      tRexBoxes_loop (outer_tRexBox tRex) (outer_obstacleBox obstacle)
        (tRexCollisionBoxes tRex) (o_collisionBoxes obstacle)"
    by (simp add: checkForCollision_def Let_def)
  with True show ?thesis
    unfolding some_boxes_overlap_def
    by (simp only: tRexBoxes_loop_hit adjusted_compare simp_thms)
qed

theorem collision_iff_outer_and_inner_witness:
  "checkForCollision (small_cactus_at 20) running_trex \<noteq> None \<and>
   some_boxes_overlap (small_cactus_at 20) running_trex"
  using collision_iff_outer_and_inner [of "small_cactus_at 20" running_trex]
  by (simp add: small_cactus_at_def running_trex_def outer_tRexBox_def
      outer_obstacleBox_def boxCompare_def mkBox_def CACTUS_SMALL_def Trex_config_def
      some_boxes_overlap_def tRexCollisionBoxes_def Trex_collisionBoxes_RUNNING_def
      boxes_overlap_def world_box_def intervals_meet_def)

section \<open>Properties: a removed obstacle\<close>

text \<open>
  C10: for every obstacle whose \<open>remove\<close> flag is set, and for every \<open>deltaTime\<close> and
  \<open>speed\<close>, \<open>Obstacle.update\<close> leaves every field of the obstacle unchanged.
\<close>

theorem removed_obstacle_frozen:
  "o_remove ob \<Longrightarrow> Obstacle_update deltaTime speed ob = ob"
  by (simp add: Obstacle_update_def)

theorem removed_obstacle_frozen_witness:
  "o_remove ((small_cactus_at (- 20))\<lparr>o_remove := True\<rparr>) \<and>
   Obstacle_update 16 6 ((small_cactus_at (- 20))\<lparr>o_remove := True\<rparr>) =
     (small_cactus_at (- 20))\<lparr>o_remove := True\<rparr>"
  using removed_obstacle_frozen [of "(small_cactus_at (- 20))\<lparr>o_remove := True\<rparr>" 16 6]
  by simp

section \<open>Properties: the opacity of the night mode\<close>

lemma NightMode_update_bounds:
  assumes "0 \<le> nm_opacity nm" "nm_opacity nm < 1 + FADE_SPEED"
  shows "0 \<le> nm_opacity (NightMode_update activated rnd nm) \<and>
         nm_opacity (NightMode_update activated rnd nm) < 1 + FADE_SPEED"
  using assms
  by (auto simp: NightMode_update_def placeStars_def Let_def FADE_SPEED_def)

lemma NightMode_reset_bounds:
  "0 \<le> nm_opacity (NightMode_reset rnd nm) \<and> nm_opacity (NightMode_reset rnd nm) < 1 + FADE_SPEED"
  unfolding NightMode_reset_def
  by (rule NightMode_update_bounds) (simp_all add: FADE_SPEED_def)

lemma NightMode_calls_bounds:
  "0 \<le> nm_opacity nm \<Longrightarrow> nm_opacity nm < 1 + FADE_SPEED \<Longrightarrow>
   0 \<le> nm_opacity (NightMode_calls cs nm) \<and> nm_opacity (NightMode_calls cs nm) < 1 + FADE_SPEED"
proof (induction cs arbitrary: nm)
  case Nil
  then show ?case by simp
next
  case (Cons c cs)
  obtain k rnd where c: "c = (k, rnd)" by (cases c)
  have "0 \<le> nm_opacity (NightMode_call c nm) \<and> nm_opacity (NightMode_call c nm) < 1 + FADE_SPEED"
    using Cons.prems NightMode_update_bounds NightMode_reset_bounds
    by (cases k) (simp_all add: c)
  then show ?case using Cons.IH by simp
qed

text \<open>
  C8, amended: for every sequence of \<open>NightMode.update\<close> calls (and resets) with any
  interleaving of \<open>activated\<close>, the opacity stays at or above 0 and below
  \<open>1 + FADE_SPEED\<close>: the fade-in adds a full step whenever the opacity is below 1.
\<close>

theorem opacity_bounds:
  "0 \<le> nm_opacity (NightMode_calls cs (new_NightMode rnd containerWidth)) \<and>
   nm_opacity (NightMode_calls cs (new_NightMode rnd containerWidth)) < 1 + FADE_SPEED"
  by (rule NightMode_calls_bounds) (simp_all add: new_NightMode_def placeStars_def Let_def FADE_SPEED_def)

lemma fade_in_step:
  "0 \<le> nm_opacity nm \<Longrightarrow> nm_opacity nm < 1 \<Longrightarrow>
   nm_opacity (NightMode_update True rnd nm) = nm_opacity nm + FADE_SPEED"
  by (auto simp: NightMode_update_def placeStars_def Let_def FADE_SPEED_def)

lemma fade_in_n:
  "0 \<le> nm_opacity nm \<Longrightarrow> nm_opacity nm + real n * FADE_SPEED < 1 + FADE_SPEED \<Longrightarrow>
   nm_opacity (NightMode_calls (replicate n (Update True, rnd)) nm) =
     nm_opacity nm + real n * FADE_SPEED"
proof (induction n arbitrary: nm)
  case 0
  then show ?case by simp
next
  case (Suc n)
  have F: "0 \<le> FADE_SPEED" by (simp add: FADE_SPEED_def)
  have "0 \<le> real n * FADE_SPEED" using F by simp
  with Suc.prems have lt: "nm_opacity nm < 1" by (simp add: algebra_simps)
  have st: "nm_opacity (NightMode_update True rnd nm) = nm_opacity nm + FADE_SPEED"
    using Suc.prems(1) lt by (rule fade_in_step)
  have "nm_opacity (NightMode_calls (replicate n (Update True, rnd)) (NightMode_update True rnd nm)) =
        nm_opacity (NightMode_update True rnd nm) + real n * FADE_SPEED"
    using Suc.prems F by (intro Suc.IH) (simp_all add: st algebra_simps)
  then show ?case by (simp add: st algebra_simps)
qed

text \<open>
  C8, as stated, fails: after 29 activated updates of a new night mode the opacity is
  \<open>29 \<times> 0.035 = 1.015\<close>, above 1.
\<close>

theorem opacity_counterexample:
  "nm_opacity (NightMode_calls (replicate 29 (Update True, no_draws)) (new_NightMode no_draws 600)) > 1"
proof -
  have "nm_opacity (NightMode_calls (replicate 29 (Update True, no_draws)) (new_NightMode no_draws 600)) =
        nm_opacity (new_NightMode no_draws 600) + real 29 * FADE_SPEED"
    by (rule fade_in_n) (simp_all add: new_NightMode_def placeStars_def Let_def FADE_SPEED_def)
  then show ?thesis by (simp add: new_NightMode_def placeStars_def Let_def FADE_SPEED_def)
qed

section \<open>Properties: the speed of the game\<close>

lemma setSpeed_config: "r_config (setSpeed opt r) = r_config r"
  by (simp add: setSpeed_def Let_def)

lemma setSpeed_None_le: "r_currentSpeed (setSpeed None r) \<le> r_currentSpeed r"
  by (simp add: setSpeed_def Let_def truthy_def)

lemma setSpeed_Some_le:
  "r_currentSpeed (setSpeed (Some v) r) \<le> max v (r_currentSpeed r)"
  by (auto simp: setSpeed_def Let_def truthy_def max_def not_less)

lemma Runner_update_inv:
  "0 < ACCELERATION cfg \<Longrightarrow> speed_inv cfg r \<Longrightarrow> speed_inv cfg (Runner_update deltaTime collision r)"
  by (auto simp: speed_inv_def Runner_update_def gameOver_def Runner_stop_def Let_def)

lemma Runner_update_mono:
  "0 \<le> ACCELERATION (r_config r) \<Longrightarrow>
   r_currentSpeed r \<le> r_currentSpeed (Runner_update deltaTime collision r)"
  by (auto simp: Runner_update_def gameOver_def Runner_stop_def Let_def)

lemma flags_inv:
  "speed_inv cfg (r\<lparr>r_playing := a\<rparr>) = speed_inv cfg r"
  "speed_inv cfg (r\<lparr>r_playing := a, r_paused := b\<rparr>) = speed_inv cfg r"
  by (simp_all add: speed_inv_def)

lemma Runner_event_inv:
  assumes "0 < ACCELERATION cfg" "SPEED cfg \<le> MAX_SPEED cfg" "speed_inv cfg r"
  shows "speed_inv cfg (Runner_event e r)"
proof (cases e)
  case (Frame dt c)
  then show ?thesis using assms by (simp add: Runner_update_inv)
next
  case (KeyStart dt c)
  then show ?thesis using assms by (simp add: Runner_update_inv flags_inv)
next
  case Stop
  then show ?thesis using assms by (simp add: Runner_stop_def speed_inv_def)
next
  case (Play dt c)
  then show ?thesis using assms by (simp add: Runner_update_inv flags_inv)
next
  case (Restart dt)
  let ?r1 = "r\<lparr>r_playing := True, r_crashed := False, r_distanceRan := 0\<rparr>"
  have cfg: "r_config r = cfg" using assms(3) by (simp add: speed_inv_def)
  have "r_currentSpeed (setSpeed (Some (SPEED cfg)) ?r1) \<le> max (SPEED cfg) (r_currentSpeed ?r1)"
    by (rule setSpeed_Some_le)
  moreover have "r_currentSpeed ?r1 < MAX_SPEED cfg + ACCELERATION cfg"
    using assms(3) by (simp add: speed_inv_def)
  ultimately have "r_currentSpeed (setSpeed (Some (SPEED cfg)) ?r1) < MAX_SPEED cfg + ACCELERATION cfg"
    using assms(1,2) by linarith
  then have "speed_inv cfg (setSpeed (Some (SPEED cfg)) ?r1)"
    by (simp add: speed_inv_def setSpeed_config cfg)
  then show ?thesis using Restart assms(1) cfg by (simp add: Runner_update_inv)
next
  case (Resize vp)
  then show ?thesis
    using assms by (simp add: Runner_stop_def speed_inv_def adjustDimensions_def Let_def)
qed

lemma Runner_events_inv:
  "0 < ACCELERATION cfg \<Longrightarrow> SPEED cfg \<le> MAX_SPEED cfg \<Longrightarrow> speed_inv cfg r \<Longrightarrow>
   speed_inv cfg (Runner_events es r)"
  by (induction es arbitrary: r) (simp_all add: Runner_event_inv)

lemma Runner_init_inv:
  assumes "0 < ACCELERATION (r_config r0)" "SPEED (r_config r0) \<le> MAX_SPEED (r_config r0)"
    "r0 = new_Runner opt_config isLowEndDevice"
  shows "speed_inv (r_config r0) (Runner_init vp r0)"
proof -
  have s0: "r_currentSpeed r0 = SPEED (r_config r0)"
    using assms(3) by (simp add: new_Runner_def Let_def)
  have "r_currentSpeed (Runner_init vp r0) \<le> r_currentSpeed (adjustDimensions vp r0)"
    unfolding Runner_init_def by (rule setSpeed_None_le)
  also have "\<dots> = SPEED (r_config r0)" by (simp add: adjustDimensions_def Let_def s0)
  finally have "r_currentSpeed (Runner_init vp r0) < MAX_SPEED (r_config r0) + ACCELERATION (r_config r0)"
    using assms(1,2) by linarith
  moreover have "r_config (Runner_init vp r0) = r_config r0"
    by (simp add: Runner_init_def setSpeed_config adjustDimensions_def Let_def)
  ultimately show ?thesis by (simp add: speed_inv_def)
qed

text \<open>
  C2, amended: with a positive acceleration and a start speed of at most \<open>MAX_SPEED\<close>,
  in every reachable state the speed is below \<open>MAX_SPEED + ACCELERATION\<close> (the tick adds
  a full step whenever the speed is below the cap), and no tick decreases the speed.
\<close>

theorem speed_bounded_and_monotone:
  assumes "r0 = new_Runner opt_config isLowEndDevice"
    and "0 < ACCELERATION (r_config r0)"
    and "SPEED (r_config r0) \<le> MAX_SPEED (r_config r0)"
    and "r = Runner_events es (Runner_init vp r0)"
  shows "r_currentSpeed r < MAX_SPEED (r_config r) + ACCELERATION (r_config r) \<and>
         r_currentSpeed r \<le> r_currentSpeed (Runner_update deltaTime collision r)"
proof -
  have inv: "speed_inv (r_config r0) r"
    unfolding assms(4)
    using assms(2,3) Runner_init_inv [OF assms(2,3,1)] by (rule Runner_events_inv)
  then have cfg: "r_config r = r_config r0" by (simp add: speed_inv_def)
  show ?thesis
    using inv Runner_update_mono [of r deltaTime collision] assms(2) cfg
    by (simp add: speed_inv_def)
qed

theorem speed_bounded_and_monotone_witness:
  "r_currentSpeed (Runner_events [KeyStart 0 False, Frame 16 False]
      (Runner_init desktop_viewport (new_Runner None False))) < 13 + 1 / 1000 \<and>
   r_currentSpeed (Runner_events [KeyStart 0 False, Frame 16 False]
      (Runner_init desktop_viewport (new_Runner None False))) = 6 + 2 / 1000"
  using speed_bounded_and_monotone [of "new_Runner None False" None False
      "Runner_events [KeyStart 0 False, Frame 16 False]
         (Runner_init desktop_viewport (new_Runner None False))"
      "[KeyStart 0 False, Frame 16 False]" desktop_viewport 16 False]
  by (simp add: new_Runner_def Runner_config_def Runner_init_def setSpeed_def
      adjustDimensions_def desktop_viewport_def Runner_defaultDimensions_def DEFAULT_WIDTH_def
      truthy_def Runner_update_def Let_def FPS_def)

lemma frames_closed_form:
  "r_playing r \<Longrightarrow> 0 \<le> ACCELERATION (r_config r) \<Longrightarrow>
   r_currentSpeed r + real n * ACCELERATION (r_config r)
     < MAX_SPEED (r_config r) + ACCELERATION (r_config r) \<Longrightarrow>
   r_currentSpeed (Runner_events (replicate n (Frame deltaTime False)) r) =
     r_currentSpeed r + real n * ACCELERATION (r_config r)"
proof (induction n arbitrary: r)
  case 0
  then show ?case by simp
next
  case (Suc n)
  let ?r1 = "Runner_update deltaTime False r"
  have "0 \<le> real n * ACCELERATION (r_config r)" using Suc.prems(2) by simp
  with Suc.prems(3) have lt: "r_currentSpeed r < MAX_SPEED (r_config r)"
    by (simp add: algebra_simps)
  have st: "r_currentSpeed ?r1 = r_currentSpeed r + ACCELERATION (r_config r)"
    "r_playing ?r1" "r_config ?r1 = r_config r"
    using Suc.prems(1) lt by (simp_all add: Runner_update_def Let_def)
  have "r_currentSpeed (Runner_events (replicate n (Frame deltaTime False)) ?r1) =
        r_currentSpeed ?r1 + real n * ACCELERATION (r_config ?r1)"
    using Suc.prems st by (intro Suc.IH) (simp_all add: algebra_simps)
  then show ?case by (simp add: st algebra_simps)
qed

text \<open>
  C2, as stated, fails with the default configuration: on a viewport 393 pixels wide the
  canvas is \<open>393 \<times> 0.95 = 373.35\<close> wide and \<open>setSpeed\<close> starts the game at
  \<open>6 \<times> 373.35 / 600 \<times> 1.2 = 4.4802\<close>; after 8520 ticks the speed is 13.0002, above
  \<open>MAX_SPEED = 13\<close>.
\<close>

theorem speed_counterexample:
  "r_currentSpeed (Runner_events (KeyStart 16 False # replicate 8519 (Frame 16 False))
      (Runner_init phone_viewport (new_Runner None False)))
   > MAX_SPEED Runner_config"
proof -
  define a where "a = Runner_init phone_viewport (new_Runner None False)"
  define b where "b = Runner_event (KeyStart 16 False) a"
  have a: "\<not> r_crashed a" "\<not> r_playing a" "r_config a = Runner_config"
    "r_currentSpeed a = 44802 / 10000"
    by (simp_all add: a_def new_Runner_def Runner_config_def Runner_init_def setSpeed_def
        adjustDimensions_def phone_viewport_def Runner_defaultDimensions_def DEFAULT_WIDTH_def
        truthy_def Let_def)
  have ev: "b = Runner_update 16 False (a\<lparr>r_playing := True\<rparr>)"
    using a(1,2) by (simp add: b_def)
  have b: "r_playing b" "r_config b = Runner_config" "r_currentSpeed b = 44812 / 10000"
    unfolding ev using a(3,4) by (simp_all add: Runner_update_def Let_def Runner_config_def)
  have "r_currentSpeed (Runner_events (replicate 8519 (Frame 16 False)) b) =
        r_currentSpeed b + real 8519 * ACCELERATION (r_config b)"
    using b(1) by (rule frames_closed_form) (simp_all add: b Runner_config_def)
  then have "r_currentSpeed (Runner_events (replicate 8519 (Frame 16 False)) b) = 130002 / 10000"
    by (simp add: b Runner_config_def)
  moreover have "Runner_events (KeyStart 16 False # replicate 8519 (Frame 16 False)) a =
        Runner_events (replicate 8519 (Frame 16 False)) b"
    by (simp only: Runner_events.simps b_def)
  ultimately show ?thesis unfolding a_def by (simp add: Runner_config_def)
qed

section \<open>Properties: the distance meter\<close>

lemmas meter_defs = new_DistanceMeter_def DistanceMeter_config_def DistanceMeter_update_def
  getActualDistance_def truthy_def Math_round_def remainder_is_zero_def Let_def

lemma update_config: "dm_config (fst (DistanceMeter_update deltaTime distance m)) = dm_config m"
  by (simp add: DistanceMeter_update_def Let_def)

lemma update_units:
  "dm_maxScoreUnits (fst (DistanceMeter_update deltaTime distance m)) =
     (if \<not> dm_acheivement m \<and> dm_maxScore m < getActualDistance m distance \<and>
         dm_maxScoreUnits m = MAX_DISTANCE_UNITS (dm_config m)
      then dm_maxScoreUnits m + 1 else dm_maxScoreUnits m)"
  by (simp add: DistanceMeter_update_def Let_def)

lemma updates_units_bounds:
  "dm_config m = cfg \<Longrightarrow> MAX_DISTANCE_UNITS cfg \<le> dm_maxScoreUnits m \<Longrightarrow>
   dm_maxScoreUnits m \<le> MAX_DISTANCE_UNITS cfg + 1 \<Longrightarrow>
   dm_config (DistanceMeter_updates calls m) = cfg \<and>
   MAX_DISTANCE_UNITS cfg \<le> dm_maxScoreUnits (DistanceMeter_updates calls m) \<and>
   dm_maxScoreUnits (DistanceMeter_updates calls m) \<le> MAX_DISTANCE_UNITS cfg + 1"
proof (induction calls arbitrary: m)
  case Nil
  then show ?case by simp
next
  case (Cons c calls)
  obtain dt d where c: "c = (dt, d)" by (cases c)
  let ?m1 = "fst (DistanceMeter_update dt d m)"
  have "dm_config ?m1 = cfg" using Cons.prems(1) by (simp add: update_config)
  moreover have "MAX_DISTANCE_UNITS cfg \<le> dm_maxScoreUnits ?m1"
    using Cons.prems by (simp add: update_units)
  moreover have "dm_maxScoreUnits ?m1 \<le> MAX_DISTANCE_UNITS cfg + 1"
    using Cons.prems by (simp add: update_units)
  ultimately show ?case using Cons.IH [of ?m1] by (simp add: c)
qed

text \<open>
  C6, amended: across every sequence of \<open>DistanceMeter.update\<close> calls the digit width
  never decreases; a call widens it by one exactly when it runs outside the achievement
  flash, the real distance exceeds \<open>maxScore\<close> and the width is still the initial
  \<open>MAX_DISTANCE_UNITS\<close>. The width therefore grows once, and stays at
  \<open>MAX_DISTANCE_UNITS + 1\<close> at every later boundary.
\<close>

theorem digit_width_grows_once:
  assumes "m = DistanceMeter_updates calls (new_DistanceMeter cfg)"
  shows "dm_maxScoreUnits (fst (DistanceMeter_update deltaTime distance m)) =
           (if \<not> dm_acheivement m \<and> dm_maxScore m < getActualDistance m distance \<and>
               dm_maxScoreUnits m = MAX_DISTANCE_UNITS cfg
            then dm_maxScoreUnits m + 1 else dm_maxScoreUnits m) \<and>
         MAX_DISTANCE_UNITS cfg \<le> dm_maxScoreUnits m \<and>
         dm_maxScoreUnits m \<le> MAX_DISTANCE_UNITS cfg + 1"
proof -
  have b: "dm_config m = cfg \<and> MAX_DISTANCE_UNITS cfg \<le> dm_maxScoreUnits m \<and>
           dm_maxScoreUnits m \<le> MAX_DISTANCE_UNITS cfg + 1"
    unfolding assms by (rule updates_units_bounds) (simp_all add: new_DistanceMeter_def)
  then show ?thesis using update_units [of deltaTime distance m] by simp
qed

theorem digit_width_grows_once_witness:
  "dm_maxScoreUnits (fst (DistanceMeter_update 16 (Some 4000040)
      (DistanceMeter_updates [(16, Some 40)] (new_DistanceMeter DistanceMeter_config)))) = 6 \<and>
   dm_maxScoreUnits (DistanceMeter_updates [(16, Some 40)]
      (new_DistanceMeter DistanceMeter_config)) = 5"
  using digit_width_grows_once [of
      "DistanceMeter_updates [(16, Some 40)] (new_DistanceMeter DistanceMeter_config)"
      "[(16, Some 40)]" DistanceMeter_config 16 "Some 4000040"]
  by (simp add: meter_defs)

text \<open>
  C6, as stated, fails at the second boundary: after a real distance of 100001 the width
  is 6 and \<open>maxScore\<close> is 999999; at the real distance 1000001, outside any flash, the
  width is still 6.
\<close>

theorem digit_width_counterexample:
  "dm_maxScoreUnits (DistanceMeter_updates [(16, Some 4000040)]
      (new_DistanceMeter DistanceMeter_config)) = 6 \<and>
   dm_maxScore (DistanceMeter_updates [(16, Some 4000040)]
      (new_DistanceMeter DistanceMeter_config)) = 999999 \<and>
   \<not> dm_acheivement (DistanceMeter_updates [(16, Some 4000040)]
      (new_DistanceMeter DistanceMeter_config)) \<and>
   getActualDistance (DistanceMeter_updates [(16, Some 4000040)]
      (new_DistanceMeter DistanceMeter_config)) (Some 40000040) = 1000001 \<and>
   dm_maxScoreUnits (DistanceMeter_updates [(16, Some 4000040), (16, Some 40000040)]
      (new_DistanceMeter DistanceMeter_config)) = 6"
  by (simp add: meter_defs)

lemma flashing_meter_eq:
  "flashing_meter = (new_DistanceMeter DistanceMeter_config)
      \<lparr>dm_distance := Some 0, dm_acheivement := True, dm_flashTimer := 0,
       dm_digits := substr_last 5 (replicate 5 (CHR ''0'') @ decimal 100)\<rparr>"
  by (simp add: flashing_meter_def meter_defs)

text \<open>
  C7, on the code: the call at the real distance 100 enters the achievement state and
  returns \<open>playSound\<close>. With a \<open>deltaTime\<close> of 200 ms one on/off cycle is three calls
  (not painted, painted, painted and counted). After three cycles the counter is 3, the
  test \<open>flashIterations <= FLASH_ITERATIONS\<close> still holds and a fourth cycle runs; the
  flag clears on the thirteenth call, after \<open>FLASH_ITERATIONS + 1 = 4\<close> cycles.
\<close>

theorem flash_runs_four_cycles:
  "snd (snd (DistanceMeter_update 16 (Some 4000) (new_DistanceMeter DistanceMeter_config))) \<and>
   dm_acheivement flashing_meter \<and>
   paint_trace (replicate 13 (200, Some 4000)) flashing_meter =
     [False, True, True, False, True, True, False, True, True, False, True, True, True] \<and>
   dm_flashIterations (DistanceMeter_updates (replicate 9 (200, Some 4000)) flashing_meter) = 3 \<and>
   dm_acheivement (DistanceMeter_updates (replicate 9 (200, Some 4000)) flashing_meter) \<and>
   dm_acheivement (DistanceMeter_updates (replicate 12 (200, Some 4000)) flashing_meter) \<and>
   \<not> dm_acheivement (DistanceMeter_updates (replicate 13 (200, Some 4000)) flashing_meter)"
  by (simp add: flashing_meter_eq meter_defs numeral_eq_Suc)

section \<open>Properties: landing\<close>

lemma Trex_draw_fields:
  "t_yPos (Trex_draw t) = t_yPos t" "t_groundYPos (Trex_draw t) = t_groundYPos t"
  "t_jumping (Trex_draw t) = t_jumping t" "t_speedDrop (Trex_draw t) = t_speedDrop t"
  "t_ducking (Trex_draw t) = t_ducking t" "t_status (Trex_draw t) = t_status t"
  "t_jumpCount (Trex_draw t) = t_jumpCount t"
  by (simp_all add: Trex_draw_def)

lemma blink_fields:
  "t_yPos (blink r time t) = t_yPos t" "t_groundYPos (blink r time t) = t_groundYPos t"
  "t_jumping (blink r time t) = t_jumping t" "t_speedDrop (blink r time t) = t_speedDrop t"
  "t_ducking (blink r time t) = t_ducking t" "t_status (blink r time t) = t_status t"
  "t_jumpCount (blink r time t) = t_jumpCount t"
  by (simp_all add: blink_def Let_def setBlinkDelay_def Trex_draw_fields)

lemma body_fields:
  "t_yPos (Trex_update_body env dt st t) = t_yPos t"
  "t_groundYPos (Trex_update_body env dt st t) = t_groundYPos t"
  "t_jumping (Trex_update_body env dt st t) = t_jumping t"
  "t_speedDrop (Trex_update_body env dt st t) = t_speedDrop t"
  "t_ducking (Trex_update_body env dt st t) = t_ducking t"
  "t_jumpCount (Trex_update_body env dt st t) = t_jumpCount t"
  "t_status (Trex_update_body env dt st t) = (case st of None \<Rightarrow> t_status t | Some s \<Rightarrow> s)"
  by (simp_all add: Trex_update_body_def Let_def setBlinkDelay_def Trex_draw_fields blink_fields
      split: option.splits)

lemma update_no_drop:
  "\<not> t_speedDrop t \<Longrightarrow> Trex_update env dt st t = Trex_update_body env dt st t"
  by (simp add: Trex_update_def Let_def body_fields)

lemma reset_fields:
  "t_yPos (Trex_reset env t) = t_groundYPos t"
  "t_groundYPos (Trex_reset env t) = t_groundYPos t"
  "\<not> t_jumping (Trex_reset env t)"
  "\<not> t_speedDrop (Trex_reset env t)"
  "t_ducking (Trex_reset env t) = t_speedDrop t"
  "t_status (Trex_reset env t) = (if t_speedDrop t then DUCKING else RUNNING)"
  "t_jumpCount (Trex_reset env t) = 0"
  by (simp_all add: Trex_reset_def Trex_update_def Let_def body_fields setDuck_with_def)

lemma jump_step_fields:
  "t_speedDrop (jump_step dt t) = t_speedDrop t"
  "t_groundYPos (jump_step dt t) = t_groundYPos t"
  by (simp_all add: jump_step_def Let_def endJump_def)

lemma landing_eq:
  assumes "lands deltaTime tRex"
  shows "updateJump env deltaTime tRex =
         Trex_update_body env deltaTime None
           ((Trex_reset env (jump_step deltaTime tRex))\<lparr>t_jumpCount := 1\<rparr>)"
  using assms
  by (simp add: updateJump_def lands_def Let_def reset_fields update_no_drop)

text \<open>
  C9, amended: for every call of \<open>updateJump\<close> in which the integration step carries the
  actor past ground level, the actor ends the call at ground level, not jumping and with
  the speed drop cleared; its status is Running (and it is not ducking) when no speed
  drop was active, and Ducking (with \<open>ducking\<close> set) when the landing ends a speed drop.
\<close>

theorem landing_state:
  assumes "lands deltaTime tRex"
  shows "t_yPos (updateJump env deltaTime tRex) = t_groundYPos (updateJump env deltaTime tRex) \<and>
         \<not> t_jumping (updateJump env deltaTime tRex) \<and>
         \<not> t_speedDrop (updateJump env deltaTime tRex) \<and>
         t_status (updateJump env deltaTime tRex) = (if t_speedDrop tRex then DUCKING else RUNNING) \<and>
         t_ducking (updateJump env deltaTime tRex) = t_speedDrop tRex"
  by (simp add: landing_eq [OF assms] body_fields reset_fields jump_step_fields)

text \<open>The jump counter after a landing is 1 whatever it was before: \<open>reset\<close> sets
  it to zero before the increment.\<close>

lemma landing_jumpCount:
  "lands deltaTime tRex \<Longrightarrow> t_jumpCount (updateJump env deltaTime tRex) = 1"
  by (simp add: landing_eq body_fields)

lemma falling_lands: "lands 16 falling_trex"
  by (simp add: lands_def jump_step_def Let_def falling_trex_def running_trex_def Trex_config_def
      endJump_def Math_round_def)

lemma dropping_lands: "lands 16 dropping_trex"
  by (simp add: lands_def jump_step_def Let_def dropping_trex_def falling_trex_def running_trex_def
      Trex_config_def endJump_def Math_round_def)

theorem landing_state_witness:
  "lands 16 falling_trex \<and> t_status (updateJump quiet_env 16 falling_trex) = RUNNING \<and>
   t_yPos (updateJump quiet_env 16 falling_trex) = 93 \<and>
   \<not> t_jumping (updateJump quiet_env 16 falling_trex)"
  using landing_state [OF falling_lands, of quiet_env] falling_lands
  by (simp add: body_fields reset_fields jump_step_fields landing_eq falling_trex_def running_trex_def)

text \<open>
  C9, as stated, fails: a T-rex in a speed drop, with one completed jump counted, lands
  with status Ducking and with a jump count of 1, not 2.
\<close>

theorem landing_counterexample:
  "lands 16 dropping_trex \<and> t_jumpCount dropping_trex = 1 \<and>
   t_status (updateJump quiet_env 16 dropping_trex) = DUCKING \<and>
   t_jumpCount (updateJump quiet_env 16 dropping_trex) = 1"
  using dropping_lands
  by (simp add: body_fields reset_fields jump_step_fields landing_eq dropping_trex_def
      falling_trex_def running_trex_def)

section \<open>Properties: the gap of a new obstacle\<close>

lemma getRandomNum_int_range:
  assumes "unit_draw r" "a \<le> b"
  shows "of_int a \<le> getRandomNum (of_int a) (of_int b) r \<and>
         getRandomNum (of_int a) (of_int b) r \<le> of_int b"
proof -
  let ?N = "b - a + 1"
  have N: "(of_int b - of_int a + 1 :: real) = of_int ?N" by simp
  have r: "0 \<le> r" "r < 1" using assms(1) by (simp_all add: unit_draw_def)
  have Npos: "0 < (of_int ?N :: real)" using assms(2) by simp
  have "0 \<le> r * of_int ?N" using r(1) Npos by simp
  then have lo: "0 \<le> \<lfloor>r * of_int ?N\<rfloor>" by simp
  have "r * of_int ?N < of_int ?N" using r(2) Npos by simp
  then have hi: "\<lfloor>r * of_int ?N\<rfloor> < ?N" by (simp only: floor_less_iff)
  have eq: "getRandomNum (of_int a) (of_int b) r = of_int (\<lfloor>r * of_int ?N\<rfloor> + a)"
    unfolding getRandomNum_def Math_floor_def N by simp
  show ?thesis unfolding eq using lo hi by (simp only: of_int_le_iff) simp
qed

lemma getRandomNum_int_onto:
  assumes "a \<le> k" "k \<le> b"
  shows "unit_draw (of_int (k - a) / of_int (b - a + 1)) \<and>
         getRandomNum (of_int a) (of_int b) (of_int (k - a) / of_int (b - a + 1)) = of_int k"
proof -
  let ?N = "b - a + 1"
  have N: "(of_int b - of_int a + 1 :: real) = of_int ?N" by simp
  have Npos: "0 < (of_int ?N :: real)" using assms by simp
  have u: "unit_draw (of_int (k - a) / of_int ?N)"
    using assms Npos by (simp add: unit_draw_def)
  have "(of_int (k - a) / of_int ?N) * (of_int ?N :: real) = of_int (k - a)"
    using Npos by simp
  then have "getRandomNum (of_int a) (of_int b) (of_int (k - a) / of_int ?N) =
             of_int \<lfloor>(of_int (k - a) :: real)\<rfloor> + of_int a"
    unfolding getRandomNum_def Math_floor_def N by simp
  then show ?thesis using u by simp
qed


lemma choose_yPos_upd:
  "choose_yPos m ty rnd i = Inr (yp, i1) \<Longrightarrow>
   i \<le> i1 \<and> (\<forall>p r. i1 \<le> p \<longrightarrow> choose_yPos m ty (rnd(p := r)) i = Inr (yp, i1))"
  by (auto simp: choose_yPos_def next_draw_def Let_def split: yPosConfig.splits if_splits)

lemma choose_speedOffset_upd:
  "choose_speedOffset ty rnd i1 ob = Inr (ob6, i2) \<Longrightarrow>
   i1 \<le> i2 \<and> o_typeConfig ob6 = o_typeConfig ob \<and> o_width ob6 = o_width ob \<and>
   o_gapCoefficient ob6 = o_gapCoefficient ob \<and>
   (\<forall>p r. i2 \<le> p \<longrightarrow> choose_speedOffset ty (rnd(p := r)) i1 ob = Inr (ob6, i2))"
  by (auto simp: choose_speedOffset_def next_draw_def split: if_splits)

lemma adjust_collisionBoxes_fields:
  "adjust_collisionBoxes ob = Inr ob5 \<Longrightarrow>
   o_typeConfig ob5 = o_typeConfig ob \<and> o_width ob5 = o_width ob \<and>
   o_gapCoefficient ob5 = o_gapCoefficient ob"
  by (auto simp: adjust_collisionBoxes_def split: if_splits list.splits)

lemma Obstacle_init_shape:
  assumes "Obstacle_init m speed rnd i ob0 = Inr (ob, j)"
  shows "\<exists>ob6 p. j = p + 1 \<and> i \<le> p \<and> unit_draw (rnd p) \<and>
           ob = ob6\<lparr>o_gap := getGap ob6 (o_gapCoefficient ob0) speed (rnd p)\<rparr> \<and>
           o_typeConfig ob6 = o_typeConfig ob0 \<and>
           o_gapCoefficient ob6 = o_gapCoefficient ob0 \<and>
           (o_width ob6 = ty_width (o_typeConfig ob0) * o_size ob0 \<or>
            o_width ob6 = ty_width (o_typeConfig ob0)) \<and>
           (\<forall>r. unit_draw r \<longrightarrow>
              Obstacle_init m speed (rnd(p := r)) i ob0 =
                Inr (ob6\<lparr>o_gap := getGap ob6 (o_gapCoefficient ob0) speed r\<rparr>, j))"
proof -
  let ?ty = "o_typeConfig ob0"
  define ob3 where "ob3 =
    (let ob1 = ob0\<lparr>o_collisionBoxes := ty_collisionBoxes ?ty\<rparr>;
         ob2 = (if o_size ob1 > 1 \<and> ty_multipleSpeed ?ty > speed
                then ob1\<lparr>o_size := 1\<rparr> else ob1)
     in ob2\<lparr>o_width := ty_width ?ty * o_size ob2\<rparr>)"
  have init_eq: "Obstacle_init m speed rnd' i ob0 =
    (case choose_yPos m ?ty rnd' i of
       Inl e \<Rightarrow> Inl e
     | Inr (yp, i1) \<Rightarrow>
         (case adjust_collisionBoxes (ob3\<lparr>o_yPos := yp\<rparr>) of
            Inl e \<Rightarrow> Inl e
          | Inr ob5 \<Rightarrow>
              (case choose_speedOffset ?ty rnd' i1 ob5 of
                 Inl e \<Rightarrow> Inl e
               | Inr (ob6, i2) \<Rightarrow>
                   (case next_draw rnd' i2 of
                      Inl e \<Rightarrow> Inl e
                    | Inr r \<Rightarrow>
                        Inr (ob6\<lparr>o_gap := getGap ob6 (o_gapCoefficient ob6) speed r\<rparr>,
                             i2 + 1)))))" for rnd'
    unfolding Obstacle_init_def ob3_def Let_def by (rule refl)
  have f3: "o_typeConfig ob3 = ?ty" "o_gapCoefficient ob3 = o_gapCoefficient ob0"
    "o_width ob3 = ty_width ?ty * o_size ob0 \<or> o_width ob3 = ty_width ?ty"
    by (auto simp: ob3_def Let_def)
  obtain yp i1 where y: "choose_yPos m ?ty rnd i = Inr (yp, i1)"
    using assms unfolding init_eq by (auto split: sum.splits)
  obtain ob5 where a: "adjust_collisionBoxes (ob3\<lparr>o_yPos := yp\<rparr>) = Inr ob5"
    using assms y unfolding init_eq by (auto split: sum.splits)
  obtain ob6 i2 where c: "choose_speedOffset ?ty rnd i1 ob5 = Inr (ob6, i2)"
    using assms y a unfolding init_eq by (auto split: sum.splits)
  have g: "unit_draw (rnd i2)" "j = i2 + 1"
    "ob = ob6\<lparr>o_gap := getGap ob6 (o_gapCoefficient ob6) speed (rnd i2)\<rparr>"
    using assms y a c unfolding init_eq
    by (auto simp: next_draw_def split: sum.splits if_splits)
  note yu = choose_yPos_upd [OF y]
  note cu = choose_speedOffset_upd [OF c]
  note af = adjust_collisionBoxes_fields [OF a]
  have f5: "o_typeConfig ob5 = ?ty" "o_gapCoefficient ob5 = o_gapCoefficient ob0"
    "o_width ob5 = ty_width ?ty * o_size ob0 \<or> o_width ob5 = ty_width ?ty"
    using af f3 by auto
  have f6: "o_typeConfig ob6 = ?ty" "o_gapCoefficient ob6 = o_gapCoefficient ob0"
    "o_width ob6 = ty_width ?ty * o_size ob0 \<or> o_width ob6 = ty_width ?ty"
    using cu f5 by auto
  have upd: "Obstacle_init m speed (rnd(i2 := r)) i ob0 =
              Inr (ob6\<lparr>o_gap := getGap ob6 (o_gapCoefficient ob0) speed r\<rparr>, j)"
    if "unit_draw r" for r
  proof -
    have y': "choose_yPos m ?ty (rnd(i2 := r)) i = Inr (yp, i1)" using yu cu by auto
    have c': "choose_speedOffset ?ty (rnd(i2 := r)) i1 ob5 = Inr (ob6, i2)" using cu by auto
    show ?thesis
      unfolding init_eq using that by (simp add: y' a c' next_draw_def g(2) f6(2))
  qed
  have "i \<le> i2" using yu cu by auto
  with g f6 upd show ?thesis by (intro exI [where x = ob6] exI [where x = i2]) auto
qed

lemma new_Obstacle_shape:
  assumes "new_Obstacle m ty dims coef speed off rnd i = Inr (ob, j)"
  shows "\<exists>ob6 p. j = p + 1 \<and> i < p \<and> unit_draw (rnd i) \<and> unit_draw (rnd p) \<and>
           ob = ob6\<lparr>o_gap := getGap ob6 coef speed (rnd p)\<rparr> \<and>
           o_typeConfig ob6 = ty \<and> o_gapCoefficient ob6 = coef \<and>
           (o_width ob6 = ty_width ty * getRandomNum 1 MAX_OBSTACLE_LENGTH (rnd i) \<or>
            o_width ob6 = ty_width ty) \<and>
           (\<forall>r. unit_draw r \<longrightarrow>
              new_Obstacle m ty dims coef speed off (rnd(p := r)) i =
                Inr (ob6\<lparr>o_gap := getGap ob6 coef speed r\<rparr>, j))"
proof -
  define ob0 where "ob0 =
    \<lparr>o_typeConfig = ty, o_gapCoefficient = coef,
     o_size = getRandomNum 1 MAX_OBSTACLE_LENGTH (rnd i), o_remove = False,
     o_xPos = dim_WIDTH dims + (if truthy off then the off else 0),
     o_yPos = 0, o_width = 0, o_collisionBoxes = [], o_gap = 0, o_speedOffset = 0,
     o_currentFrame = 0, o_timer = 0, o_followingObstacleCreated = False\<rparr>"
  have u: "unit_draw (rnd i)"
    using assms by (auto simp: new_Obstacle_def next_draw_def split: if_splits)
  have new_eq: "new_Obstacle m ty dims coef speed off rnd' i =
      Obstacle_init m speed rnd' (i + 1) ob0" if "rnd' i = rnd i" for rnd'
    using that u by (simp add: new_Obstacle_def next_draw_def ob0_def)
  have "Obstacle_init m speed rnd (i + 1) ob0 = Inr (ob, j)"
    using assms new_eq [of rnd] by simp
  from Obstacle_init_shape [OF this] obtain ob6 p where
    s: "j = p + 1" "i + 1 \<le> p" "unit_draw (rnd p)"
       "ob = ob6\<lparr>o_gap := getGap ob6 (o_gapCoefficient ob0) speed (rnd p)\<rparr>"
       "o_typeConfig ob6 = o_typeConfig ob0" "o_gapCoefficient ob6 = o_gapCoefficient ob0"
       "o_width ob6 = ty_width (o_typeConfig ob0) * o_size ob0 \<or>
        o_width ob6 = ty_width (o_typeConfig ob0)"
       "\<And>r. unit_draw r \<Longrightarrow> Obstacle_init m speed (rnd(p := r)) (i + 1) ob0 =
              Inr (ob6\<lparr>o_gap := getGap ob6 (o_gapCoefficient ob0) speed r\<rparr>, j)"
    by blast
  have f0: "o_typeConfig ob0 = ty" "o_gapCoefficient ob0 = coef"
    "o_size ob0 = getRandomNum 1 MAX_OBSTACLE_LENGTH (rnd i)"
    by (simp_all add: ob0_def)
  have "new_Obstacle m ty dims coef speed off (rnd(p := r)) i =
          Inr (ob6\<lparr>o_gap := getGap ob6 coef speed r\<rparr>, j)" if "unit_draw r" for r
    using new_eq [of "rnd(p := r)"] s(2) s(8) [OF that] by (simp add: f0)
  with s u show ?thesis
    by (intro exI [where x = ob6] exI [where x = p]) (auto simp: f0)
qed


lemma getGap_bounds:
  assumes "0 \<le> o_width ob" "0 \<le> speed" "0 \<le> ty_minGap (o_typeConfig ob)" "0 \<le> coef"
  shows "\<exists>lo hi. 0 \<le> lo \<and> lo \<le> hi \<and>
           Math_round (o_width ob * speed + ty_minGap (o_typeConfig ob) * coef) = of_int lo \<and>
           Math_round (3 / 2 * of_int lo) = of_int hi \<and>
           (\<forall>r. getGap ob coef speed r = getRandomNum (of_int lo) (of_int hi) r)"
proof -
  let ?v = "o_width ob * speed + ty_minGap (o_typeConfig ob) * coef"
  let ?lo = "\<lfloor>?v + 1 / 2\<rfloor>"
  let ?hi = "\<lfloor>3 / 2 * of_int ?lo + 1 / 2 :: real\<rfloor>"
  have "0 \<le> ?v" using assms by simp
  then have lo: "0 \<le> ?lo" by simp
  have "0 \<le> (of_int ?lo :: real)" using lo by (simp only: of_int_0_le_iff)
  then have "(of_int ?lo :: real) \<le> 3 / 2 * of_int ?lo + 1 / 2" by linarith
  then have hi: "?lo \<le> ?hi" by (simp only: le_floor_iff)
  have "getGap ob coef speed r = getRandomNum (of_int ?lo) (of_int ?hi) r" for r
    by (simp add: getGap_def Let_def Math_round_def MAX_GAP_COEFFICIENT_def mult.commute)
  with lo hi show ?thesis
    by (intro exI [where x = ?lo] exI [where x = ?hi]) (simp add: Math_round_def)
qed

text \<open>
  C4: for every obstacle constructed at a speed \<open>s \<ge> 0\<close> (with a non-negative gap
  coefficient, type width and type minimum gap), with final width \<open>w\<close> and type minimum
  gap \<open>g\<close>, the stored gap lies between \<open>lo = round(w \<times> s + g \<times> gapCoefficient)\<close>
  and \<open>round(1.5 \<times> lo)\<close>, and every integer of that range is the gap of an obstacle
  that the constructor returns for some random sequence; for \<open>s = 6\<close>, \<open>g = 120\<close>,
  \<open>gapCoefficient = 0.6\<close> and \<open>w = 17\<close> the gap lies in \<open>[174, 261]\<close>.
\<close>

theorem gap_in_range_and_onto:
  assumes "new_Obstacle IS_MOBILE ty dims coef speed off rnd i = Inr (ob, j)"
    and "0 \<le> speed" and "0 \<le> coef" and "0 \<le> ty_width ty" and "0 \<le> ty_minGap ty"
  shows "gap_lo ob speed \<le> o_gap ob \<and> o_gap ob \<le> gap_hi ob speed \<and>
         (\<forall>k::int. gap_lo ob speed \<le> of_int k \<and> of_int k \<le> gap_hi ob speed \<longrightarrow>
            (\<exists>rnd'. new_Obstacle IS_MOBILE ty dims coef speed off rnd' i =
                       Inr (ob\<lparr>o_gap := of_int k\<rparr>, j))) \<and>
         (o_width ob = 17 \<and> speed = 6 \<and> ty_minGap ty = 120 \<and> coef = 6 / 10 \<longrightarrow>
            174 \<le> o_gap ob \<and> o_gap ob \<le> 261)"
proof -
  from new_Obstacle_shape [OF assms(1)] obtain ob6 p where
    s: "j = p + 1" "unit_draw (rnd i)" "unit_draw (rnd p)"
       "ob = ob6\<lparr>o_gap := getGap ob6 coef speed (rnd p)\<rparr>"
       "o_typeConfig ob6 = ty" "o_gapCoefficient ob6 = coef"
       "o_width ob6 = ty_width ty * getRandomNum 1 MAX_OBSTACLE_LENGTH (rnd i) \<or>
        o_width ob6 = ty_width ty"
       "\<And>r. unit_draw r \<Longrightarrow> new_Obstacle IS_MOBILE ty dims coef speed off (rnd(p := r)) i =
              Inr (ob6\<lparr>o_gap := getGap ob6 coef speed r\<rparr>, j)"
    by blast
  have "of_int 1 \<le> getRandomNum (of_int 1) (of_int 3) (rnd i)"
    using getRandomNum_int_range [OF s(2), of 1 3] by simp
  then have "0 \<le> getRandomNum 1 MAX_OBSTACLE_LENGTH (rnd i)"
    by (simp add: MAX_OBSTACLE_LENGTH_def)
  with s(7) assms(4) have w: "0 \<le> o_width ob6" by auto
  from getGap_bounds [of ob6 speed coef] w assms(2,3,5) s(5) obtain lo hi where
    b: "0 \<le> lo" "lo \<le> hi"
       "Math_round (o_width ob6 * speed + ty_minGap ty * coef) = of_int lo"
       "Math_round (3 / 2 * of_int lo) = of_int hi"
       "\<And>r. getGap ob6 coef speed r = getRandomNum (of_int lo) (of_int hi) r"
    by auto
  have glo: "gap_lo ob speed = of_int lo" by (simp add: gap_lo_def s(4,5,6) b(3))
  have ghi: "gap_hi ob speed = of_int hi" unfolding gap_hi_def glo by (rule b(4))
  have gap: "o_gap ob = getRandomNum (of_int lo) (of_int hi) (rnd p)" by (simp add: s(4) b(5))
  have rng: "of_int lo \<le> o_gap ob \<and> o_gap ob \<le> of_int hi"
    unfolding gap using s(3) b(2) by (rule getRandomNum_int_range)
  have onto: "\<exists>rnd'. new_Obstacle IS_MOBILE ty dims coef speed off rnd' i =
                Inr (ob\<lparr>o_gap := of_int k\<rparr>, j)"
    if "gap_lo ob speed \<le> of_int k \<and> of_int k \<le> gap_hi ob speed" for k :: int
  proof -
    have k: "lo \<le> k" "k \<le> hi" using that by (simp_all add: glo ghi)
    define rr :: real where "rr = of_int (k - lo) / of_int (hi - lo + 1)"
    have r: "unit_draw rr" "getRandomNum (of_int lo) (of_int hi) rr = of_int k"
      using getRandomNum_int_onto [OF k] by (simp_all only: rr_def)
    have "new_Obstacle IS_MOBILE ty dims coef speed off (rnd(p := rr)) i =
            Inr (ob6\<lparr>o_gap := of_int k\<rparr>, j)"
      using s(8) [OF r(1)] by (simp only: b(5) r(2))
    moreover have "ob\<lparr>o_gap := of_int k\<rparr> = ob6\<lparr>o_gap := of_int k\<rparr>" by (simp add: s(4))
    ultimately show ?thesis by (intro exI [where x = "rnd(p := rr)"]) simp
  qed
  have ex: "174 \<le> o_gap ob \<and> o_gap ob \<le> 261"
    if "o_width ob = 17 \<and> speed = 6 \<and> ty_minGap ty = 120 \<and> coef = 6 / 10"
  proof -
    from that have v: "o_width ob6 = 17" "speed = 6" "ty_minGap ty = 120" "coef = 6 / 10"
      by (simp_all add: s(4))
    have "gap_lo ob speed = 174"
      unfolding gap_lo_def by (simp add: s(4,5,6) v Math_round_def)
    moreover from this have "gap_hi ob speed = 261" by (simp add: gap_hi_def Math_round_def)
    ultimately show ?thesis using rng by (simp add: glo ghi)
  qed
  from rng onto ex show ?thesis by (simp only: glo ghi) blast
qed

lemma small_cactus_new_at:
  "new_Obstacle False CACTUS_SMALL Runner_defaultDimensions (6 / 10) 6 (Some 17) no_draws i =
     Inr (spawned_cactus, i + 2)"
  by (simp add: new_Obstacle_def next_draw_def unit_draw_def no_draws_def Obstacle_init_def
      Let_def choose_yPos_def adjust_collisionBoxes_def choose_speedOffset_def truthy_def
      CACTUS_SMALL_def getRandomNum_def Math_floor_def MAX_OBSTACLE_LENGTH_def
      Runner_defaultDimensions_def DEFAULT_WIDTH_def getGap_def Math_round_def
      MAX_GAP_COEFFICIENT_def spawned_cactus_def small_cactus_at_def)

lemma spawned_cactus_new:
  "new_Obstacle False CACTUS_SMALL Runner_defaultDimensions (6 / 10) 6 (Some 17) no_draws 0 =
     Inr (spawned_cactus, 2)"
  using small_cactus_new_at [of 0] by simp

theorem gap_in_range_and_onto_witness:
  "new_Obstacle False CACTUS_SMALL Runner_defaultDimensions (6 / 10) 6 (Some 17) no_draws 0 =
     Inr (spawned_cactus, 2) \<and>
   o_width spawned_cactus = 17 \<and> 174 \<le> o_gap spawned_cactus \<and> o_gap spawned_cactus \<le> 261 \<and>
   (\<exists>rnd'. new_Obstacle False CACTUS_SMALL Runner_defaultDimensions (6 / 10) 6 (Some 17) rnd' 0 =
      Inr (spawned_cactus\<lparr>o_gap := 261\<rparr>, 2))"
proof -
  have h: "(0::real) \<le> 6" "(0::real) \<le> 6 / 10" "0 \<le> ty_width CACTUS_SMALL"
    "0 \<le> ty_minGap CACTUS_SMALL"
    by (simp_all add: CACTUS_SMALL_def)
  have w: "o_width spawned_cactus = 17" "o_typeConfig spawned_cactus = CACTUS_SMALL"
    "o_gapCoefficient spawned_cactus = 6 / 10"
    by (simp_all add: spawned_cactus_def small_cactus_at_def)
  have g: "gap_lo spawned_cactus 6 = 174" "gap_hi spawned_cactus 6 = 261"
    by (simp_all add: gap_lo_def gap_hi_def w Math_round_def CACTUS_SMALL_def)
  note t = gap_in_range_and_onto [OF spawned_cactus_new h]
  from t have "174 \<le> o_gap spawned_cactus \<and> o_gap spawned_cactus \<le> 261"
    by (simp add: g)
  moreover have "\<exists>rnd'. new_Obstacle False CACTUS_SMALL Runner_defaultDimensions (6 / 10) 6
      (Some 17) rnd' 0 = Inr (spawned_cactus\<lparr>o_gap := of_int 261\<rparr>, 2)"
    by (rule t [THEN conjunct2, THEN conjunct2, THEN conjunct1, rule_format, of 261])
      (simp add: g)
  ultimately show ?thesis using spawned_cactus_new w(1) by simp
qed

section \<open>Properties: the spawner\<close>

lemma drawn_index:
  assumes "unit_draw r"
  shows "nat \<lfloor>getRandomNum 0 (real (length Obstacle_types) - 1) r\<rfloor> < 3"
proof -
  have "of_int 0 \<le> getRandomNum (of_int 0) (of_int 2) r \<and>
        getRandomNum (of_int 0) (of_int 2) r \<le> of_int 2"
    using assms by (rule getRandomNum_int_range) simp
  moreover have "real (length Obstacle_types) - 1 = 2" by (simp add: Obstacle_types_def)
  ultimately have "getRandomNum 0 (real (length Obstacle_types) - 1) r \<le> 2" by simp
  then have "\<lfloor>getRandomNum 0 (real (length Obstacle_types) - 1) r\<rfloor> \<le> 2"
    by (simp add: floor_le_iff)
  then show ?thesis by linarith
qed

lemma drawn_type_cases:
  "unit_draw r \<Longrightarrow>
   drawn_type r = CACTUS_SMALL \<or> drawn_type r = CACTUS_LARGE \<or> drawn_type r = PTERODACTYL"
  using drawn_index [of r]
  by (auto simp: drawn_type_def Obstacle_types_def nth_Cons less_Suc_eq numeral_3_eq_3
      split: nat.splits)

lemma add_bad_draw:
  "\<not> unit_draw (rnd i) \<Longrightarrow>
   addNewObstacle cfg m sp rnd i hz = Some (Inl DrawOutOfRange)"
  by (subst addNewObstacle.simps) (simp add: next_draw_def)

lemma add_reject:
  "unit_draw (rnd i) \<Longrightarrow> \<not> acceptable cfg sp hz (drawn_type (rnd i)) \<Longrightarrow>
   addNewObstacle cfg m sp rnd i hz = addNewObstacle cfg m sp rnd (i + 1) hz"
  by (subst addNewObstacle.simps)
    (auto simp: next_draw_def acceptable_def drawn_type_def Let_def)

lemma add_accept:
  "unit_draw (rnd i) \<Longrightarrow> acceptable cfg sp hz (drawn_type (rnd i)) \<Longrightarrow>
   addNewObstacle cfg m sp rnd i hz =
     (case new_Obstacle m (drawn_type (rnd i)) (h_dimensions hz) (h_gapCoefficient hz) sp
             (Some (ty_width (drawn_type (rnd i)))) rnd (i + 1) of
        Inl e \<Rightarrow> Some (Inl e)
      | Inr (ob, i') \<Rightarrow>
          Some (Inr (hz\<lparr>h_obstacles := h_obstacles hz @ [ob],
                         h_obstacleHistory :=
                           push_history cfg (ty_type (drawn_type (rnd i)))
                             (h_obstacleHistory hz)\<rparr>, i')))"
  unfolding drawn_type_def acceptable_def
  by (subst addNewObstacle.simps) (simp add: next_draw_def Let_def)

lemma new_Obstacle_type:
  "new_Obstacle m ty dims coef sp off rnd i = Inr (ob, j) \<Longrightarrow> o_typeConfig ob = ty"
  using new_Obstacle_shape [of m ty dims coef sp off rnd i ob j] by auto

lemma add_result_aux:
  assumes "addNewObstacle cfg m sp rnd i hz = Some y"
  shows "\<forall>h2 j2. y = Inr (h2, j2) \<longrightarrow>
     (\<exists>ty ob. \<not> duplicateObstacleCheck cfg hz (ty_type ty) \<and>
       h_obstacleHistory h2 = push_history cfg (ty_type ty) (h_obstacleHistory hz) \<and>
       h_obstacles h2 = h_obstacles hz @ [ob] \<and> o_typeConfig ob = ty)"
proof (induction cfg m sp rnd i hz y rule: addNewObstacle.raw_induct)
  case (1 f cfg m sp rnd i hz y)
  show ?case
  proof (cases "unit_draw (rnd i)")
    case False
    with 1(2) show ?thesis by (auto simp: next_draw_def)
  next
    case u: True
    show ?thesis
    proof (cases "acceptable cfg sp hz (drawn_type (rnd i))")
      case False
      with u 1(2) have "f cfg m sp rnd (i + 1) hz = Some y"
        by (auto simp: next_draw_def acceptable_def drawn_type_def Let_def)
      from 1(1) [OF this] show ?thesis .
    next
      case True
      show ?thesis
      proof (intro allI impI)
        fix h2 j2
        assume y: "y = Inr (h2, j2)"
        from True u 1(2) y obtain ob where
          n: "new_Obstacle m (drawn_type (rnd i)) (h_dimensions hz) (h_gapCoefficient hz) sp
                (Some (ty_width (drawn_type (rnd i)))) rnd (i + 1) = Inr (ob, j2)"
          and h: "h2 = hz\<lparr>h_obstacles := h_obstacles hz @ [ob],
                     h_obstacleHistory := push_history cfg (ty_type (drawn_type (rnd i)))
                       (h_obstacleHistory hz)\<rparr>"
          unfolding acceptable_def drawn_type_def
          by (auto simp: next_draw_def Let_def split: sum.splits)
        from True h new_Obstacle_type [OF n]
        show "\<exists>ty ob. \<not> duplicateObstacleCheck cfg hz (ty_type ty) \<and>
           h_obstacleHistory h2 = push_history cfg (ty_type ty) (h_obstacleHistory hz) \<and>
           h_obstacles h2 = h_obstacles hz @ [ob] \<and> o_typeConfig ob = ty"
          by (intro exI [where x = "drawn_type (rnd i)"] exI [where x = ob])
            (simp add: acceptable_def)
      qed
    qed
  qed
qed (rule assms)

lemma add_result:
  "addNewObstacle cfg m sp rnd i hz = Some (Inr (hz', j)) \<Longrightarrow>
   \<exists>ty ob. \<not> duplicateObstacleCheck cfg hz (ty_type ty) \<and>
     h_obstacleHistory hz' = push_history cfg (ty_type ty) (h_obstacleHistory hz) \<and>
     h_obstacles hz' = h_obstacles hz @ [ob] \<and> o_typeConfig ob = ty"
  using add_result_aux [of cfg m sp rnd i hz "Inr (hz', j)"] by blast

lemma never_pterodactyl_aux:
  assumes "addNewObstacle cfg m sp rnd i hz = Some y"
  shows "\<not> (sp < 17 / 2 \<and> rnd = always_pterodactyl)"
proof (induction cfg m sp rnd i hz y rule: addNewObstacle.raw_induct)
  case (1 f cfg m sp rnd i hz y)
  show ?case
  proof
    assume a: "sp < 17 / 2 \<and> rnd = always_pterodactyl"
    have d: "Obstacle_types !
        nat \<lfloor>getRandomNum 0 (real (length Obstacle_types) - 1) (always_pterodactyl i)\<rfloor> =
        PTERODACTYL"
      by (simp add: always_pterodactyl_def getRandomNum_def Math_floor_def Obstacle_types_def)
    have "ty_minSpeed PTERODACTYL = 17 / 2" by (simp add: PTERODACTYL_def)
    with a 1(2) d have "f cfg m sp rnd (i + 1) hz = Some y"
      by (simp add: next_draw_def unit_draw_def always_pterodactyl_def Let_def)
    from 1(1) [OF this] a show False by simp
  qed
qed (rule assms)

text \<open>
  C5, as stated, fails: at speed 6 the two cacti satisfy their minimum speed, yet on the
  random sequence that always selects the pterodactyl (minimum speed 8.5) every draw is
  rejected and the call never returns.
\<close>

theorem spawn_counterexample:
  "ty_minSpeed (Obstacle_types ! 0) \<le> 6 \<and>
   addNewObstacle Runner_config False 6 always_pterodactyl 0
     (new_Horizon Runner_defaultDimensions (6 / 10)) = None"
proof -
  have "addNewObstacle Runner_config False 6 always_pterodactyl 0
     (new_Horizon Runner_defaultDimensions (6 / 10)) \<noteq> Some y" for y
    using never_pterodactyl_aux [of Runner_config False 6 always_pterodactyl 0
        "new_Horizon Runner_defaultDimensions (6 / 10)" y]
    by auto
  then have "addNewObstacle Runner_config False 6 always_pterodactyl 0
     (new_Horizon Runner_defaultDimensions (6 / 10)) = None"
    by (cases "addNewObstacle Runner_config False 6 always_pterodactyl 0
     (new_Horizon Runner_defaultDimensions (6 / 10))") auto
  then show ?thesis by (simp add: Obstacle_types_def CACTUS_SMALL_def)
qed


lemma duplicate_loop_replicate: "duplicate_loop t (replicate k t) c = c + k"
  by (induction k arbitrary: c) simp_all

lemma duplicate_full:
  "h_obstacleHistory hz = replicate (MAX_OBSTACLE_DUPLICATION cfg) t \<Longrightarrow>
   duplicateObstacleCheck cfg hz t"
  by (simp add: duplicateObstacleCheck_def duplicate_loop_replicate)

lemma not_duplicate_pos:
  "\<not> duplicateObstacleCheck cfg hz t \<Longrightarrow> 1 \<le> MAX_OBSTACLE_DUPLICATION cfg"
  by (simp add: duplicateObstacleCheck_def not_le) 

lemma push_history_take:
  "1 \<le> MAX_OBSTACLE_DUPLICATION cfg \<Longrightarrow>
   push_history cfg t H = take (MAX_OBSTACLE_DUPLICATION cfg) (t # H)"
  by (cases H) (auto simp: push_history_def Let_def take_Cons split: nat.splits)

lemma spawned_runs:
  "length (h_obstacleHistory hz) \<le> MAX_OBSTACLE_DUPLICATION cfg \<Longrightarrow>
   spawned_types cfg m invs hz = Some tys \<Longrightarrow>
   longest_run tys \<le> MAX_OBSTACLE_DUPLICATION cfg \<and>
   (\<forall>t k. k \<le> length (h_obstacleHistory hz) \<and>
      take k (h_obstacleHistory hz) = replicate k t \<longrightarrow>
      leading_run t tys + k \<le> MAX_OBSTACLE_DUPLICATION cfg)"
proof (induction invs arbitrary: hz tys)
  case Nil
  then show ?case by auto
next
  case (Cons inv invs)
  let ?n = "MAX_OBSTACLE_DUPLICATION cfg"
  let ?H = "h_obstacleHistory hz"
  obtain sp rnd where inv: "inv = (sp, rnd)" by (cases inv)
  from Cons.prems(2) obtain hz' j tys' where
    a: "addNewObstacle cfg m sp rnd 0 hz = Some (Inr (hz', j))"
    and r: "spawned_types cfg m invs hz' = Some tys'"
    and t: "tys = ty_type (o_typeConfig (last (h_obstacles hz'))) # tys'"
    by (auto simp: inv split: option.splits sum.splits)
  from add_result [OF a] obtain ty ob where
    nd: "\<not> duplicateObstacleCheck cfg hz (ty_type ty)"
    and h': "h_obstacleHistory hz' = push_history cfg (ty_type ty) ?H"
    and o': "h_obstacles hz' = h_obstacles hz @ [ob]" "o_typeConfig ob = ty"
    by blast
  let ?t1 = "ty_type ty"
  have t1: "tys = ?t1 # tys'" using t o' by simp
  have n1: "1 \<le> ?n" using nd by (rule not_duplicate_pos)
  have H': "h_obstacleHistory hz' = take ?n (?t1 # ?H)"
    using h' push_history_take [OF n1] by simp
  have len': "length (h_obstacleHistory hz') \<le> ?n" by (simp add: H')
  note IH = Cons.IH [OF len' r]
  have lead: "leading_run t tys' + k \<le> ?n"
    if "k \<le> length (h_obstacleHistory hz')" "take k (h_obstacleHistory hz') = replicate k t"
    for t k
    using IH that by blast
  have one: "leading_run ?t1 tys' + 1 \<le> ?n"
  proof (rule lead)
    show "1 \<le> length (h_obstacleHistory hz')" using n1 by (simp add: H')
    show "take 1 (h_obstacleHistory hz') = replicate 1 ?t1"
      using n1 by (simp add: H' take_Cons split: nat.splits)
  qed
  have run: "longest_run tys \<le> ?n" using IH one by (simp add: t1)
  have pre: "leading_run t tys + k \<le> ?n"
    if k: "k \<le> length ?H" and tk: "take k ?H = replicate k t" for t k
  proof (cases "t = ?t1")
    case False
    then show ?thesis using k Cons.prems(1) by (simp add: t1)
  next
    case True
    have "k \<noteq> ?n"
    proof
      assume "k = ?n"
      with k Cons.prems(1) have "length ?H = ?n" by simp
      with tk \<open>k = ?n\<close> have "?H = replicate ?n ?t1" by (simp add: True)
      then have "duplicateObstacleCheck cfg hz ?t1" by (rule duplicate_full)
      with nd show False by simp
    qed
    with k Cons.prems(1) have kn: "k < ?n" by simp
    have "leading_run ?t1 tys' + Suc k \<le> ?n"
    proof (rule lead)
      show "Suc k \<le> length (h_obstacleHistory hz')" using kn k by (simp add: H')
      have "take (Suc k) (h_obstacleHistory hz') = take (Suc k) (?t1 # ?H)"
        using kn by (simp add: H' min_def)
      also have "\<dots> = replicate (Suc k) ?t1" using tk True by simp
      finally show "take (Suc k) (h_obstacleHistory hz') = replicate (Suc k) ?t1" .
    qed
    then show ?thesis by (simp add: t1 True)
  qed
  from run pre show ?case by blast
qed

text \<open>
  C3: for every random sequence and every sequence of spawner invocations on a new
  horizon, the sequence of obstacle types pushed by \<open>addNewObstacle\<close> never contains a
  run of more than \<open>MAX_OBSTACLE_DUPLICATION\<close> consecutive identical types.
\<close>

theorem no_long_runs:
  "spawned_types cfg IS_MOBILE invs (new_Horizon dims coef) = Some tys \<Longrightarrow>
   longest_run tys \<le> MAX_OBSTACLE_DUPLICATION cfg"
  using spawned_runs [of "new_Horizon dims coef" cfg IS_MOBILE invs tys]
  by (simp add: new_Horizon_def)

lemma drawn_type_0: "drawn_type 0 = CACTUS_SMALL"
  by (simp add: drawn_type_def getRandomNum_def Math_floor_def Obstacle_types_def)

lemma two_cacti:
  "spawned_types Runner_config False [(6, no_draws), (6, no_draws)]
     (new_Horizon Runner_defaultDimensions (6 / 10)) = Some [''CACTUS_SMALL'', ''CACTUS_SMALL'']"
proof -
  define h0 where "h0 = new_Horizon Runner_defaultDimensions (6 / 10)"
  define h1 where
    "h1 = h0\<lparr>h_obstacles := [spawned_cactus], h_obstacleHistory := [''CACTUS_SMALL'']\<rparr>"
  define h2 where
    "h2 = h1\<lparr>h_obstacles := [spawned_cactus, spawned_cactus],
              h_obstacleHistory := [''CACTUS_SMALL'', ''CACTUS_SMALL'']\<rparr>"
  have u: "unit_draw (no_draws 0)" by (simp add: unit_draw_def no_draws_def)
  have d: "drawn_type (no_draws 0) = CACTUS_SMALL" by (simp add: no_draws_def drawn_type_0)
  have f0: "h_dimensions h0 = Runner_defaultDimensions" "h_gapCoefficient h0 = 6 / 10"
    "h_obstacles h0 = []" "h_obstacleHistory h0 = []"
    by (simp_all add: h0_def new_Horizon_def)
  have f1: "h_dimensions h1 = Runner_defaultDimensions" "h_gapCoefficient h1 = 6 / 10"
    "h_obstacles h1 = [spawned_cactus]" "h_obstacleHistory h1 = [''CACTUS_SMALL'']"
    by (simp_all add: h1_def f0)
  have c: "ty_width CACTUS_SMALL = 17" "ty_type CACTUS_SMALL = ''CACTUS_SMALL''"
    "ty_minSpeed CACTUS_SMALL = 0" "MAX_OBSTACLE_DUPLICATION Runner_config = 2"
    by (simp_all add: CACTUS_SMALL_def Runner_config_def)
  have a0: "acceptable Runner_config 6 h0 (drawn_type (no_draws 0))"
    by (simp add: d acceptable_def duplicateObstacleCheck_def f0 c)
  have a1: "acceptable Runner_config 6 h1 (drawn_type (no_draws 0))"
    by (simp add: d acceptable_def duplicateObstacleCheck_def f1 c)
  have s0: "addNewObstacle Runner_config False 6 no_draws 0 h0 = Some (Inr (h1, 3))"
    unfolding add_accept [where rnd = no_draws and i = 0 and m = False, OF u a0] d f0 c
      small_cactus_new_at
    by (simp add: push_history_def Let_def h1_def)
  have s1: "addNewObstacle Runner_config False 6 no_draws 0 h1 = Some (Inr (h2, 3))"
    unfolding add_accept [where rnd = no_draws and i = 0 and m = False, OF u a1] d f1 c
      small_cactus_new_at
    by (simp add: push_history_def Let_def h2_def c)
  have t: "ty_type (o_typeConfig spawned_cactus) = ''CACTUS_SMALL''"
    by (simp add: spawned_cactus_def small_cactus_at_def CACTUS_SMALL_def)
  have l: "last (h_obstacles h1) = spawned_cactus" "last (h_obstacles h2) = spawned_cactus"
    by (simp_all add: h1_def h2_def)
  have "spawned_types Runner_config False [(6, no_draws), (6, no_draws)] h0 =
        Some [''CACTUS_SMALL'', ''CACTUS_SMALL'']"
    by (simp add: s0 s1 l t)
  then show ?thesis by (simp only: h0_def)
qed

theorem no_long_runs_witness:
  "spawned_types Runner_config False [(6, no_draws), (6, no_draws)]
     (new_Horizon Runner_defaultDimensions (6 / 10)) = Some [''CACTUS_SMALL'', ''CACTUS_SMALL''] \<and>
   longest_run [''CACTUS_SMALL'', ''CACTUS_SMALL''] \<le> MAX_OBSTACLE_DUPLICATION Runner_config"
  using no_long_runs [OF two_cacti] two_cacti by simp


lemma duplicate_loop_last:
  "0 < duplicate_loop t H c \<Longrightarrow> (H = [] \<and> 0 < c) \<or> (H \<noteq> [] \<and> last H = t)"
proof (induction H arbitrary: c)
  case Nil
  then show ?case by simp
next
  case (Cons h H)
  from Cons.prems have "0 < duplicate_loop t H (if h = t then c + 1 else 0)" by simp
  from Cons.IH [OF this] show ?case
    by (auto split: if_splits)
qed

lemma duplicate_check_last:
  "1 \<le> MAX_OBSTACLE_DUPLICATION cfg \<Longrightarrow> duplicateObstacleCheck cfg hz t \<Longrightarrow>
   h_obstacleHistory hz \<noteq> [] \<and> last (h_obstacleHistory hz) = t"
  using duplicate_loop_last [of t "h_obstacleHistory hz" 0]
  by (auto simp: duplicateObstacleCheck_def)

lemma drawn_type_half: "drawn_type (1 / 2) = CACTUS_LARGE"
  by (simp add: drawn_type_def getRandomNum_def Math_floor_def Obstacle_types_def)

lemma some_draw_acceptable:
  assumes "\<exists>ty \<in> set Obstacle_types. ty_minSpeed ty \<le> sp"
    and "1 \<le> MAX_OBSTACLE_DUPLICATION cfg"
  shows "\<exists>r. unit_draw r \<and> acceptable cfg sp hz (drawn_type r)"
proof -
  have sp: "0 \<le> sp"
    using assms(1) by (auto simp: Obstacle_types_def CACTUS_SMALL_def CACTUS_LARGE_def PTERODACTYL_def)
  show ?thesis
  proof (cases "duplicateObstacleCheck cfg hz ''CACTUS_SMALL''")
    case False
    then have "acceptable cfg sp hz (drawn_type 0)"
      using sp by (simp add: acceptable_def drawn_type_0 CACTUS_SMALL_def)
    moreover have "unit_draw 0" by (simp add: unit_draw_def)
    ultimately show ?thesis by blast
  next
    case True
    from duplicate_check_last [OF assms(2) True]
    have l: "last (h_obstacleHistory hz) = ''CACTUS_SMALL''" by simp
    have "\<not> duplicateObstacleCheck cfg hz ''CACTUS_LARGE''"
    proof
      assume "duplicateObstacleCheck cfg hz ''CACTUS_LARGE''"
      from duplicate_check_last [OF assms(2) this] l show False by simp
    qed
    then have "acceptable cfg sp hz (drawn_type (1 / 2))"
      using sp by (simp add: acceptable_def drawn_type_half CACTUS_LARGE_def)
    moreover have "unit_draw (1 / 2)" by (simp add: unit_draw_def)
    ultimately show ?thesis by blast
  qed
qed

lemma new_Obstacle_ok:
  assumes "\<forall>n. unit_draw (rnd n)"
    and "ty = CACTUS_SMALL \<or> ty = CACTUS_LARGE \<or> ty = PTERODACTYL"
  shows "\<exists>ob j. new_Obstacle m ty dims coef sp off rnd i = Inr (ob, j)"
  using assms
  by (auto simp: new_Obstacle_def next_draw_def Obstacle_init_def Let_def choose_yPos_def
      adjust_collisionBoxes_def choose_speedOffset_def truthy_def
      CACTUS_SMALL_def CACTUS_LARGE_def PTERODACTYL_def)

lemma returns_on_acceptable:
  assumes "\<forall>n. unit_draw (rnd n)"
  shows "acceptable cfg sp hz (drawn_type (rnd (i + k))) \<Longrightarrow>
         \<exists>hz' j. addNewObstacle cfg m sp rnd i hz = Some (Inr (hz', j))"
proof (induction k arbitrary: i)
  case 0
  have u: "unit_draw (rnd i)" using assms by simp
  from 0 have a: "acceptable cfg sp hz (drawn_type (rnd i))" by simp
  from new_Obstacle_ok [OF assms drawn_type_cases [OF u]] obtain ob j where
    "new_Obstacle m (drawn_type (rnd i)) (h_dimensions hz) (h_gapCoefficient hz) sp
       (Some (ty_width (drawn_type (rnd i)))) rnd (i + 1) = Inr (ob, j)"
    by blast
  then show ?case by (simp add: add_accept [where rnd = rnd and i = i, OF u a])
next
  case (Suc k)
  have u: "unit_draw (rnd i)" using assms by simp
  show ?case
  proof (cases "acceptable cfg sp hz (drawn_type (rnd i))")
    case True
    from new_Obstacle_ok [OF assms drawn_type_cases [OF u]] obtain ob j where
      "new_Obstacle m (drawn_type (rnd i)) (h_dimensions hz) (h_gapCoefficient hz) sp
         (Some (ty_width (drawn_type (rnd i)))) rnd (i + 1) = Inr (ob, j)"
      by blast
    then show ?thesis by (simp add: add_accept [where rnd = rnd and i = i, OF u True])
  next
    case False
    from Suc.prems have "acceptable cfg sp hz (drawn_type (rnd ((i + 1) + k)))" by simp
    from Suc.IH [OF this] show ?thesis by (simp add: add_reject [where rnd = rnd and i = i, OF u False])
  qed
qed

text \<open>
  C5, amended: for every current speed at which at least one entry of the type table
  satisfies its minimum speed (and a duplication limit of at least one), some value of
  \<open>Math.random()\<close> selects a type that passes both checks, whatever the history; and
  every call of \<open>addNewObstacle\<close> whose random sequence holds such a value at or after
  its current position returns with an obstacle pushed. The call retries for as long as
  rejected types are drawn.
\<close>

theorem spawn_returns_on_acceptable_draw:
  "((\<exists>ty \<in> set Obstacle_types. ty_minSpeed ty \<le> currentSpeed) \<and>
      1 \<le> MAX_OBSTACLE_DUPLICATION cfg \<longrightarrow>
      (\<exists>r. unit_draw r \<and> acceptable cfg currentSpeed hz (drawn_type r))) \<and>
   ((\<forall>n. unit_draw (rnd n)) \<and> acceptable cfg currentSpeed hz (drawn_type (rnd (i + k))) \<longrightarrow>
      (\<exists>hz' j. addNewObstacle cfg IS_MOBILE currentSpeed rnd i hz = Some (Inr (hz', j))))"
  using some_draw_acceptable [of currentSpeed cfg hz]
    returns_on_acceptable [of rnd cfg currentSpeed hz i k IS_MOBILE]
  by blast

theorem spawn_returns_on_acceptable_draw_witness:
  "(\<exists>r. unit_draw r \<and>
      acceptable Runner_config 6 (new_Horizon Runner_defaultDimensions (6 / 10)) (drawn_type r)) \<and>
   (\<exists>hz' j. addNewObstacle Runner_config False 6 pterodactyl_first 0
      (new_Horizon Runner_defaultDimensions (6 / 10)) = Some (Inr (hz', j)))"
proof -
  have h1: "\<exists>ty \<in> set Obstacle_types. ty_minSpeed ty \<le> 6"
    by (simp add: Obstacle_types_def CACTUS_SMALL_def)
  have h2: "1 \<le> MAX_OBSTACLE_DUPLICATION Runner_config" by (simp add: Runner_config_def)
  have h3: "\<forall>n. unit_draw (pterodactyl_first n)"
    by (simp add: pterodactyl_first_def unit_draw_def)
  have h4: "acceptable Runner_config 6 (new_Horizon Runner_defaultDimensions (6 / 10))
      (drawn_type (pterodactyl_first (0 + 1)))"
    by (simp add: pterodactyl_first_def drawn_type_0 acceptable_def duplicateObstacleCheck_def
        new_Horizon_def Runner_config_def CACTUS_SMALL_def)
  note t = spawn_returns_on_acceptable_draw [of 6 Runner_config
      "new_Horizon Runner_defaultDimensions (6 / 10)" pterodactyl_first 0 1 False]
  from t h1 h2 h3 h4 show ?thesis by blast
qed

end
